theory Spec2Isabelle
  imports Main
begin

section \<open>Helpers from the Go standard library\<close>

subsection \<open>Package strings\<close>

definition TrimPrefix :: "string \<Rightarrow> string \<Rightarrow> string" where
  "TrimPrefix s p = (if take (length p) s = p then drop (length p) s else s)"

definition TrimSuffix :: "string \<Rightarrow> string \<Rightarrow> string" where
  "TrimSuffix s p =
     (if length p \<le> length s \<and> drop (length s - length p) s = p
      then take (length s - length p) s else s)"

text \<open>\<open>Index s sep\<close> is the position of the first occurrence of \<open>sep\<close> in \<open>s\<close>.\<close>

fun Index :: "string \<Rightarrow> string \<Rightarrow> nat option" where
  "Index [] sep = (if sep = [] then Some 0 else None)"
| "Index (x # xs) sep =
     (if take (length sep) (x # xs) = sep then Some 0 else map_option Suc (Index xs sep))"

text \<open>
  \<open>strings.SplitN s sep n\<close> for a non-empty separator and \<open>n \<ge> 0\<close> (the interceptor calls
  it with \<open>''/''\<close> and \<open>2\<close>): at most \<open>n\<close> pieces, the last one holding the unsplit rest.
\<close>

fun SplitN :: "string \<Rightarrow> string \<Rightarrow> nat \<Rightarrow> string list" where
  "SplitN s sep 0 = []"
| "SplitN s sep (Suc 0) = [s]"
| "SplitN s sep (Suc (Suc n)) =
     (case Index s sep of
        None \<Rightarrow> [s]
      | Some i \<Rightarrow> take i s # SplitN (drop (i + length sep) s) sep (Suc n))"

subsection \<open>Package regexp: leftmost-first matching with greedy repetition\<close>

text \<open>
  The fragment of the regexp syntax that \<open>manifestURLPattern\<close> uses. \<open>Star\<close>, \<open>Plus\<close> and
  \<open>Upto n\<close> are the greedy operators \<open>*\<close>, \<open>+\<close> and \<open>{0,n}\<close>; \<open>Grp i\<close> is the capturing
  group number \<open>i\<close>; a non-capturing group \<open>(?:...)\<close> is just its body.
\<close>

datatype regex =
    Lit string
  | Cls "char \<Rightarrow> bool"
  | Seq regex regex
  | Star regex
  | Plus regex
  | Upto nat regex
  | Grp nat regex

type_synonym caps = "nat \<rightharpoonup> string"

fun weight :: "regex \<Rightarrow> nat" where
  "weight (Lit l) = 0"
| "weight (Cls P) = 0"
| "weight (Seq a b) = Suc (weight a + weight b)"
| "weight (Star r) = Suc (weight r)"
| "weight (Plus r) = Suc (Suc (weight r))"
| "weight (Upto n r) = Suc (n + weight r)"
| "weight (Grp n r) = Suc (weight r)"

text \<open>
  \<open>rmatch r s c\<close> lists every way \<open>r\<close> can match a prefix of \<open>s\<close>, as the pair of the
  captures so far and the unread rest of \<open>s\<close>, in the order in which a backtracking
  search tries them: a greedy operator tries one more iteration before it tries to stop.
  The head of the list is the match that package regexp reports. An iteration of \<open>Star\<close>
  that consumes nothing is not repeated.
\<close>

function rmatch :: "regex \<Rightarrow> string \<Rightarrow> caps \<Rightarrow> (caps \<times> string) list" where
  "rmatch (Lit l) s c = (if take (length l) s = l then [(c, drop (length l) s)] else [])"
| "rmatch (Cls P) s c = (case s of [] \<Rightarrow> [] | x # xs \<Rightarrow> if P x then [(c, xs)] else [])"
| "rmatch (Seq a b) s c = concat (map (\<lambda>(c', s'). rmatch b s' c') (rmatch a s c))"
| "rmatch (Star r) s c =
     concat (map (\<lambda>(c', s'). if length s' < length s then rmatch (Star r) s' c' else [])
                 (rmatch r s c)) @ [(c, s)]"
| "rmatch (Plus r) s c = concat (map (\<lambda>(c', s'). rmatch (Star r) s' c') (rmatch r s c))"
| "rmatch (Upto 0 r) s c = [(c, s)]"
| "rmatch (Upto (Suc n) r) s c =
     concat (map (\<lambda>(c', s'). rmatch (Upto n r) s' c') (rmatch r s c)) @ [(c, s)]"
| "rmatch (Grp n r) s c =
     map (\<lambda>(c', s'). (c'(n \<mapsto> take (length s - length s') s), s')) (rmatch r s c)"
  by pat_completeness auto
termination
  by (relation "inv_image (less_than <*lex*> less_than) (\<lambda>(r, s, c). (weight r, length s))")
     auto

declare rmatch.simps [simp del]

fun num_groups :: "regex \<Rightarrow> nat" where
  "num_groups (Lit l) = 0"
| "num_groups (Cls P) = 0"
| "num_groups (Seq a b) = max (num_groups a) (num_groups b)"
| "num_groups (Star r) = num_groups r"
| "num_groups (Plus r) = num_groups r"
| "num_groups (Upto n r) = num_groups r"
| "num_groups (Grp n r) = max n (num_groups r)"

text \<open>
  \<open>FindStringSubmatch\<close> for a pattern that starts with \<open>^\<close>: a match can only begin at the
  first byte of the text. The result is the matched text followed by the text of each
  group, or the empty slice when there is no match.
\<close>

definition FindStringSubmatch :: "regex \<Rightarrow> string \<Rightarrow> string list" where
  "FindStringSubmatch re s =
     (case rmatch re s Map.empty of
        [] \<Rightarrow> []
      | (c, rest) # _ \<Rightarrow>
          take (length s - length rest) s #
          map (\<lambda>i. case c i of None \<Rightarrow> [] | Some g \<Rightarrow> g) [1 ..< Suc (num_groups re)])"

subsection \<open>Packages strconv and encoding/json\<close>

fun digits :: "nat \<Rightarrow> string" where
  "digits n =
     (if n < 10 then [''0123456789'' ! n]
      else digits (n div 10) @ [''0123456789'' ! (n mod 10)])"

declare digits.simps [simp del]

definition Itoa :: "int \<Rightarrow> string" where
  "Itoa i = (if i < 0 then CHR ''-'' # digits (nat (- i)) else digits (nat i))"

text \<open>
  The JSON text of a string, with the HTML-safe escaping that \<open>json.Marshal\<close> applies.
  Bytes of 0x80 and above are copied: the messages of this package are ASCII.
\<close>

definition json_char :: "char \<Rightarrow> string" where
  "json_char c =
     (if c = CHR 0x22 then [CHR 0x5C, CHR 0x22]
      else if c = CHR 0x5C then [CHR 0x5C, CHR 0x5C]
      else if c = CHR 0x0A then [CHR 0x5C, CHR ''n'']
      else if c = CHR 0x0D then [CHR 0x5C, CHR ''r'']
      else if c = CHR 0x09 then [CHR 0x5C, CHR ''t'']
      else if (of_char c :: nat) < 32 \<or> c \<in> set ''<>&''
      then [CHR 0x5C, CHR ''u'', CHR ''0'', CHR ''0'',
            ''0123456789abcdef'' ! ((of_char c :: nat) div 16),
            ''0123456789abcdef'' ! ((of_char c :: nat) mod 16)]
      else [c])"

definition json_string :: "string \<Rightarrow> string" where
  "json_string s = CHR 0x22 # concat (map json_char s) @ [CHR 0x22]"

section \<open>Data of the interceptors\<close>

datatype error = Error string

text \<open>\<open>JSONError\<close> wraps a code and a message in a form the docker daemon reads.\<close>

record JSONError =
  Code :: int
  Message :: string
  Details :: string

record imageInfo =
  repository :: string
  tag :: string
  projectName :: string
  digest :: string

text \<open>
  The request, as far as the interceptors read it: the method, \<open>URL.Path\<close>, and the value
  stored in the request context under \<open>imageInfoCtxKey\<close> (no value is \<open>None\<close>; the key
  type is private to the package, so only an \<open>imageInfo\<close> is ever stored there).
\<close>

record Request =
  Method :: string
  Path :: string
  Context :: "imageInfo option"

text \<open>
  A response sink, either the client's \<open>http.ResponseWriter\<close> or an
  \<open>httptest.ResponseRecorder\<close>: the live header map, the status, whether the status line
  has been written, the header as it stood at that moment (what goes on the wire), and the
  body written so far.
\<close>

type_synonym header = "string \<rightharpoonup> string list"

record ResponseWriter =
  HeaderMap :: header
  StatusCode :: int
  wroteHeader :: bool
  snapHeader :: header
  Body :: string

text \<open>Collaborators outside this file, as far as the interceptors use them.\<close>

record Target =
  Tag :: string
  Hashes :: "string \<rightharpoonup> string"

record Project =
  EnableContentTrust :: bool
  PreventVulnerableImagesFromRunning :: bool
  PreventVulnerableImagesFromRunningSeverity :: string

record ImgScanOverview =
  Sev :: int

text \<open>
  The configuration and the external services are parameters of the model:
  \<^item> \<open>RegistryProxyPrefix\<close>, \<open>NotaryEndpoint\<close>, \<open>WithNotary\<close>, \<open>WithClair\<close>, \<open>WithAdmiral\<close>:
    package constants and \<open>config\<close> toggles;
  \<^item> \<open>GlobalProjectMgr\<close>: \<open>ProjectManager.Get\<close>, the tenant's settings or a lookup error;
  \<^item> \<open>Getenv\<close>: \<open>os.Getenv\<close>;
  \<^item> \<open>GetInternalTargets\<close>, \<open>DigestFromTarget\<close>: package \<open>notary\<close>;
  \<^item> \<open>GetImgScanOverview\<close>: package \<open>dao\<close>; \<open>None\<close> is the nil overview;
  \<^item> \<open>ParseClairSev\<close>, \<open>SevUnknown\<close>: package \<open>clair\<close> and the constant of \<open>models\<close>, a
    severity being an integer;
  \<^item> \<open>SeverityQ\<close>: how \<open>fmt\<close> prints a \<open>models.Severity\<close> under the verb \<open>%q\<close>.
\<close>

record env =
  RegistryProxyPrefix :: string
  NotaryEndpoint :: string
  WithNotary :: bool
  WithClair :: bool
  WithAdmiral :: bool
  GlobalProjectMgr :: "string \<Rightarrow> error + Project"
  Getenv :: "string \<Rightarrow> string"
  GetInternalTargets :: "string \<Rightarrow> string \<Rightarrow> string \<Rightarrow> error + Target list"
  DigestFromTarget :: "Target \<Rightarrow> error + string"
  GetImgScanOverview :: "string \<Rightarrow> error + ImgScanOverview option"
  ParseClairSev :: "string \<Rightarrow> int"
  SevUnknown :: int
  SeverityQ :: "int \<Rightarrow> string"

text \<open>The calls made to the tenant store, the trust service and the scan store.\<close>

datatype call =
    CallPMGet string
  | CallGetInternalTargets string string string
  | CallGetImgScanOverview string

text \<open>
  The state of the process: the response sinks by address, the next unused address, the
  package variable \<open>rec\<close> (a pointer to a recorder, \<open>None\<close> being nil), and the calls made
  to the collaborators so far. Debug and error logging is left out.
\<close>

record state =
  heap :: "nat \<Rightarrow> ResponseWriter"
  next_addr :: nat
  rec :: "nat option"
  calls :: "call list"

type_synonym handler = "nat \<Rightarrow> Request \<Rightarrow> state \<Rightarrow> state option"

section \<open>Writing a response (package net/http)\<close>

definition upd :: "nat \<Rightarrow> (ResponseWriter \<Rightarrow> ResponseWriter) \<Rightarrow> state \<Rightarrow> state" where
  "upd a f st = st\<lparr>heap := (heap st)(a := f (heap st a))\<rparr>"

definition Header_Set :: "nat \<Rightarrow> string \<Rightarrow> string \<Rightarrow> state \<Rightarrow> state" where
  "Header_Set a k v = upd a (\<lambda>w. w\<lparr>HeaderMap := (HeaderMap w)(k \<mapsto> [v])\<rparr>)"

text \<open>\<open>Header.Get\<close> of a key that is already in canonical form.\<close>

definition Header_Get :: "header \<Rightarrow> string \<Rightarrow> string" where
  "Header_Get h k = (case h k of None \<Rightarrow> [] | Some [] \<Rightarrow> [] | Some (v # _) \<Rightarrow> v)"

text \<open>Only the first \<open>WriteHeader\<close> counts; a \<open>Write\<close> before it implies status 200.\<close>

definition writeHeader :: "int \<Rightarrow> ResponseWriter \<Rightarrow> ResponseWriter" where
  "writeHeader code w =
     (if wroteHeader w then w
      else w\<lparr>StatusCode := code, wroteHeader := True, snapHeader := HeaderMap w\<rparr>)"

definition WriteHeader :: "nat \<Rightarrow> int \<Rightarrow> state \<Rightarrow> state" where
  "WriteHeader a code = upd a (writeHeader code)"

definition Write :: "nat \<Rightarrow> string \<Rightarrow> state \<Rightarrow> state" where
  "Write a b = upd a (\<lambda>w. (writeHeader 200 w)\<lparr>Body := Body w @ b\<rparr>)"

definition http_Error :: "nat \<Rightarrow> string \<Rightarrow> int \<Rightarrow> state \<Rightarrow> state" where
  "http_Error rw err code st =
     Write rw (err @ [CHR 0x0A])
       (WriteHeader rw code
         (Header_Set rw ''X-Content-Type-Options'' ''nosniff''
           (Header_Set rw ''Content-Type'' ''text/plain; charset=utf-8'' st)))"

text \<open>\<open>httptest.NewRecorder\<close>: a fresh recorder at an unused address, with code 200.\<close>

definition NewRecorder :: "state \<Rightarrow> nat \<times> state" where
  "NewRecorder st =
     (next_addr st,
      st\<lparr>heap := (heap st)(next_addr st :=
             \<lparr>HeaderMap = Map.empty, StatusCode = 200, wroteHeader = False,
              snapHeader = Map.empty, Body = []\<rparr>),
         next_addr := Suc (next_addr st)\<rparr>)"

text \<open>\<open>rec.Result().StatusCode\<close>.\<close>

definition Result_StatusCode :: "ResponseWriter \<Rightarrow> int" where
  "Result_StatusCode w = (if StatusCode w = 0 then 200 else StatusCode w)"

section \<open>The interceptors\<close>

subsection \<open>Matching a manifest pull\<close>

definition lower_digit :: "char \<Rightarrow> bool" where
  "lower_digit c \<longleftrightarrow> c \<in> set ''abcdefghijklmnopqrstuvwxyz0123456789''"

definition separator :: "char \<Rightarrow> bool" where
  "separator c \<longleftrightarrow> c \<in> set ''._-''"

definition word_char :: "char \<Rightarrow> bool" where
  "word_char c \<longleftrightarrow>
     c \<in> set ''0123456789ABCDEFGHIJKLMNOPQRSTUVWXYZ_abcdefghijklmnopqrstuvwxyz''"

definition ref_char :: "char \<Rightarrow> bool" where
  "ref_char c \<longleftrightarrow> word_char c \<or> c \<in> set ''.:-''"

text \<open>\<open>[a-z0-9]+(?:[._-][a-z0-9]+)*\<close>\<close>

definition token_re :: regex where
  "token_re =
     Seq (Plus (Cls lower_digit)) (Star (Seq (Cls separator) (Plus (Cls lower_digit))))"

text \<open>\<open>[\w][\w.:-]{0,127}\<close>\<close>

definition reference_re :: regex where
  "reference_re = Seq (Cls word_char) (Upto 127 (Cls ref_char))"

text \<open>
  \<open>^/v2/((?:[a-z0-9]+(?:[._-][a-z0-9]+)*/)+)manifests/([\w][\w.:-]{0,127})\<close>, the leading
  \<open>^\<close> being part of \<open>FindStringSubmatch\<close> above.
\<close>

definition manifestURLPattern :: regex where
  "manifestURLPattern =
     Seq (Lit ''/v2/'')
       (Seq (Grp 1 (Plus (Seq token_re (Lit ''/''))))
         (Seq (Lit ''manifests/'') (Grp 2 reference_re)))"

definition tokenUsername :: string where
  "tokenUsername = ''harbor-ui''"

definition MatchPullManifest :: "Request \<Rightarrow> bool \<times> string \<times> string" where
  "MatchPullManifest req =
     (if Method req \<noteq> ''GET'' then (False, [], [])
      else
        let s = FindStringSubmatch manifestURLPattern (Path req) in
        if length s = 3 then (True, TrimSuffix (s ! 1) ''/'', s ! 2)
        else (False, [], []))"

subsection \<open>The policy of a project\<close>

datatype policyChecker =
    envPolicyChecker
  | pmsPolicyChecker "string \<Rightarrow> error + Project"

definition log_call :: "call \<Rightarrow> state \<Rightarrow> state" where
  "log_call c st = st\<lparr>calls := calls st @ [c]\<rparr>"

fun contentTrustEnabled :: "env \<Rightarrow> policyChecker \<Rightarrow> string \<Rightarrow> state \<Rightarrow> bool \<times> state" where
  "contentTrustEnabled e envPolicyChecker name st =
     (Getenv e ''PROJECT_CONTENT_TRUST'' = ''1'', st)"
| "contentTrustEnabled e (pmsPolicyChecker pm) name st =
     (case pm name of
        Inl err \<Rightarrow> (True, log_call (CallPMGet name) st)
      | Inr project \<Rightarrow> (EnableContentTrust project, log_call (CallPMGet name) st))"

fun vulnerablePolicy :: "env \<Rightarrow> policyChecker \<Rightarrow> string \<Rightarrow> state \<Rightarrow> (bool \<times> int) \<times> state" where
  "vulnerablePolicy e envPolicyChecker name st =
     ((Getenv e ''PROJECT_VULNERABLE'' = ''1'', ParseClairSev e (Getenv e ''PROJECT_SEVERITY'')),
      st)"
| "vulnerablePolicy e (pmsPolicyChecker pm) name st =
     (case pm name of
        Inl err \<Rightarrow> ((True, SevUnknown e), log_call (CallPMGet name) st)
      | Inr project \<Rightarrow>
          ((PreventVulnerableImagesFromRunning project,
            ParseClairSev e (PreventVulnerableImagesFromRunningSeverity project)),
           log_call (CallPMGet name) st))"

definition getPolicyChecker :: "env \<Rightarrow> policyChecker" where
  "getPolicyChecker e =
     (if WithAdmiral e then pmsPolicyChecker (GlobalProjectMgr e) else envPolicyChecker)"

subsection \<open>The error body and the replay\<close>

text \<open>
  \<open>json.Marshal\<close> of a \<open>JSONError\<close>: the three fields in declaration order, each left out
  when empty (\<open>omitempty\<close>). It cannot fail on this type.
\<close>

definition json_Marshal :: "JSONError \<Rightarrow> error + string" where
  "json_Marshal je =
     Inr (''{'' @
          concat (butlast (concat (map (\<lambda>f. [f, '',''])
            ((if Code je = 0 then []
              else [json_string ''code'' @ '':'' @ Itoa (Code je)]) @
             (if Message je = [] then []
              else [json_string ''message'' @ '':'' @ json_string (Message je)]) @
             (if Details je = [] then []
              else [json_string ''details'' @ '':'' @ json_string (Details je)]))))) @
          ''}'')"

definition marshalError :: "string \<Rightarrow> int \<Rightarrow> string" where
  "marshalError msg statusCode =
     (case json_Marshal \<lparr>Code = statusCode, Message = msg, Details = msg\<rparr> of
        Inl err \<Rightarrow> msg
      | Inr str \<Rightarrow> str)"

text \<open>\<open>copyResp\<close> panics (\<open>None\<close>) on a nil recorder.\<close>

definition copyResp :: "nat option \<Rightarrow> nat \<Rightarrow> state \<Rightarrow> state option" where
  "copyResp rc rw st =
     (case rc of
        None \<Rightarrow> None
      | Some r \<Rightarrow>
          let st1 = upd rw (\<lambda>w. w\<lparr>HeaderMap := HeaderMap w ++ HeaderMap (heap st r)\<rparr>) st;
              st2 = WriteHeader rw (Result_StatusCode (heap st1 r)) st1
          in Some (Write rw (Body (heap st2 r)) st2))"

subsection \<open>The handlers\<close>

text \<open>
  \<open>urlHandler.ServeHTTP\<close> up to its last statement: the request is answered here
  (\<open>Return\<close>), or it goes on to \<open>uh.next\<close> with the client's writer (\<open>Forward\<close>), or a nil
  \<open>rec\<close> is dereferenced (\<open>Panic\<close>). Every use of \<open>rec\<close> reads the package variable anew.
\<close>

datatype outcome = Panic | Return state | Forward Request state

definition urlHandler_intercept :: "env \<Rightarrow> handler \<Rightarrow> nat \<Rightarrow> Request \<Rightarrow> state \<Rightarrow> outcome" where
  "urlHandler_intercept e next rw req0 st =
     (let req = req0\<lparr>Path := TrimPrefix (Path req0) (RegistryProxyPrefix e)\<rparr>;
          (flag, repository, tag) = MatchPullManifest req
      in
      if flag then
        let components = SplitN repository ''/'' 2 in
        if length components < 2 then
          Return (http_Error rw
                    (marshalError (''Bad repository name: '' @ repository) 500) 400 st)
        else
          let (a, st1) = NewRecorder st;
              st2 = st1\<lparr>rec := Some a\<rparr>
          in
          case rec st2 of
            None \<Rightarrow> Panic
          | Some r0 \<Rightarrow>
             (case next r0 req st2 of
                None \<Rightarrow> Panic
              | Some st3 \<Rightarrow>
                 (case rec st3 of
                    None \<Rightarrow> Panic
                  | Some r \<Rightarrow>
                      if Result_StatusCode (heap st3 r) \<noteq> 200 then
                        (case copyResp (rec st3) rw st3 of
                           None \<Rightarrow> Panic
                         | Some st4 \<Rightarrow> Return st4)
                      else
                        let dig = Header_Get (HeaderMap (heap st3 r)) ''Docker-Content-Digest'';
                            img = \<lparr>repository = repository, tag = tag,
                                   projectName = hd components, digest = dig\<rparr>
                        in Forward (req\<lparr>Context := Some img\<rparr>) st3))
      else Forward req st)"

definition urlHandler :: "env \<Rightarrow> handler \<Rightarrow> handler" where
  "urlHandler e next rw req st =
     (case urlHandler_intercept e next rw req st of
        Panic \<Rightarrow> None
      | Return st' \<Rightarrow> Some st'
      | Forward req' st' \<Rightarrow> next rw req' st')"

text \<open>The loop of \<open>matchNotaryDigest\<close> over the targets.\<close>

fun matchTargets :: "env \<Rightarrow> imageInfo \<Rightarrow> Target list \<Rightarrow> error + bool" where
  "matchTargets e img [] = Inr False"
| "matchTargets e img (t # ts) =
     (if Tag t = tag img then
        (case DigestFromTarget e t of
           Inl err \<Rightarrow> Inl err
         | Inr d \<Rightarrow> Inr (digest img = d))
      else matchTargets e img ts)"

definition matchNotaryDigest :: "env \<Rightarrow> imageInfo \<Rightarrow> state \<Rightarrow> (error + bool) \<times> state" where
  "matchNotaryDigest e img st =
     (let st' = log_call (CallGetInternalTargets (NotaryEndpoint e) tokenUsername
                            (repository img)) st
      in case GetInternalTargets e (NotaryEndpoint e) tokenUsername (repository img) of
           Inl err \<Rightarrow> (Inl err, st')
         | Inr targets \<Rightarrow> (matchTargets e img targets, st'))"

definition contentTrustHandler :: "env \<Rightarrow> handler \<Rightarrow> handler" where
  "contentTrustHandler e next rw req st =
     (case Context req of
        None \<Rightarrow> next rw req st
      | Some img \<Rightarrow>
          if \<not> WithNotary e then next rw req st
          else
            let (enabled, st1) = contentTrustEnabled e (getPolicyChecker e) (projectName img) st
            in
            if \<not> enabled then next rw req st1
            else
              let (res, st2) = matchNotaryDigest e img st1 in
              (case res of
                 Inl err \<Rightarrow>
                   Some (http_Error rw
                           (marshalError
                              ''Failed in communication with Notary please check the log'' 500)
                           500 st2)
               | Inr match \<Rightarrow>
                   if \<not> match then
                     Some (http_Error rw
                             (marshalError ''The image is not signed in Notary.'' 412) 412 st2)
                   else next rw req st2))"

definition vulnerableHandler :: "env \<Rightarrow> handler \<Rightarrow> handler" where
  "vulnerableHandler e next rw req st =
     (case Context req of
        None \<Rightarrow> next rw req st
      | Some img \<Rightarrow>
          if \<not> WithClair e then next rw req st
          else
            let ((projectVulnerableEnabled, projectVulnerableSeverity), st1) =
                  vulnerablePolicy e (getPolicyChecker e) (projectName img) st
            in
            if \<not> projectVulnerableEnabled then next rw req st1
            else
              let st2 = log_call (CallGetImgScanOverview (digest img)) st1 in
              (case GetImgScanOverview e (digest img) of
                Inl err \<Rightarrow>
                  Some (http_Error rw (marshalError ''Failed to get ImgScanOverview.'' 412)
                          412 st2)
              | Inr None \<Rightarrow>
                  Some (http_Error rw
                          (marshalError ''Cannot get the image scan overview info.'' 412)
                          412 st2)
              | Inr (Some overview) \<Rightarrow>
                  let imageSev = Sev overview in
                  if imageSev \<ge> projectVulnerableSeverity then
                    Some (http_Error rw
                            (marshalError
                               (''The severity of vulnerability of the image: '' @
                                SeverityQ e imageSev @
                                '' is equal or higher than the threshold in project setting: '' @
                                SeverityQ e projectVulnerableSeverity @ ''.'')
                               412)
                            412 st2)
                  else next rw req st2))"

definition funnelHandler :: "handler \<Rightarrow> handler" where
  "funnelHandler next rw req st =
     (case Context req of
        Some img \<Rightarrow> copyResp (rec st) rw st
      | None \<Rightarrow> next rw req st)"

section \<open>The language of a regular expression\<close>





fun plain :: "regex \<Rightarrow> bool" where
  "plain (Lit l) = True"
| "plain (Cls P) = True"
| "plain (Seq a b) = (plain a \<and> plain b)"
| "plain (Star r) = plain r"
| "plain (Plus r) = plain r"
| "plain (Upto n r) = plain r"
| "plain (Grp n r) = False"

section \<open>The shape of a manifest URL, in the words of the specification\<close>






section \<open>The chain of handlers and worked examples\<close>

text \<open>
  Modelled from the spec: the order of the stages. The chain is assembled in another file
  of the package; the specification gives the control flow as request matcher and forwarder,
  then the content-trust stage, then the vulnerability stage, then the release stage, then
  the registry itself.
\<close>

definition policy_chain :: "env \<Rightarrow> handler \<Rightarrow> handler" where
  "policy_chain e proxy = contentTrustHandler e (vulnerableHandler e (funnelHandler proxy))"

definition handlerChain :: "env \<Rightarrow> handler \<Rightarrow> handler" where
  "handlerChain e proxy = urlHandler e (policy_chain e proxy)"

text \<open>
  Inputs for the worked examples: a process that has served nothing yet, with the clients'
  writers at the addresses 0 and 1; an environment with both checks switched off; a registry
  that knows every manifest but one; and a way to read the digest of a signed target.
\<close>

definition fresh_writer :: ResponseWriter where
  "fresh_writer =
     \<lparr>HeaderMap = Map.empty, StatusCode = 0, wroteHeader = False, snapHeader = Map.empty,
      Body = []\<rparr>"

definition init_state :: state where
  "init_state = \<lparr>heap = (\<lambda>a. fresh_writer), next_addr = 2, rec = None, calls = []\<rparr>"

definition example_digest :: "Target \<Rightarrow> error + string" where
  "example_digest t =
     (case Hashes t ''sha256'' of
        None \<Rightarrow> Inl (Error ''no valid hash, expecting sha256'')
      | Some h \<Rightarrow> Inr (''sha256:'' @ h))"

definition example_sev :: "string \<Rightarrow> int" where
  "example_sev s =
     (if s = ''negligible'' then 1 else if s = ''low'' then 3 else if s = ''medium'' then 4
      else if s = ''high'' then 5 else 2)"

definition example_env :: env where
  "example_env =
     \<lparr>RegistryProxyPrefix = ''/registryproxy'', NotaryEndpoint = ''http://notary-server:4443'',
      WithNotary = False, WithClair = False, WithAdmiral = False,
      GlobalProjectMgr = (\<lambda>name. Inl (Error ''project store unreachable'')),
      Getenv = (\<lambda>key. []),
      GetInternalTargets = (\<lambda>endpoint username repo. Inr []),
      DigestFromTarget = example_digest,
      GetImgScanOverview = (\<lambda>d. Inr None),
      ParseClairSev = example_sev, SevUnknown = 2,
      SeverityQ = (\<lambda>i. CHR 0x22 # Itoa i @ [CHR 0x22])\<rparr>"

definition example_registry :: handler where
  "example_registry rw req st =
     (if Path req = ''/v2/library/missing/manifests/latest''
      then Some (Write rw ''manifest unknown'' (WriteHeader rw 404 st))
      else Some (Write rw (''manifest of '' @ Path req)
                  (WriteHeader rw 200
                    (Header_Set rw ''Docker-Content-Digest'' (''sha256:'' @ Path req) st))))"

definition pull_request :: "string \<Rightarrow> Request" where
  "pull_request p = \<lparr>Method = ''GET'', Path = p, Context = None\<rparr>"

definition example_image :: imageInfo where
  "example_image =
     \<lparr>repository = ''library/ubuntu'', tag = ''v1'', projectName = ''library'',
      digest = ''sha256:bbb''\<rparr>"

definition checked_request :: Request where
  "checked_request =
     \<lparr>Method = ''GET'', Path = ''/v2/library/ubuntu/manifests/v1'',
      Context = Some example_image\<rparr>"

text \<open>Content trust switched on, the trust service answering with the given targets.\<close>

definition trust_env :: "error + Target list \<Rightarrow> env" where
  "trust_env ts =
     example_env\<lparr>WithNotary := True,
                  Getenv := (\<lambda>key. if key = ''PROJECT_CONTENT_TRUST'' then ''1'' else []),
                  GetInternalTargets := (\<lambda>endpoint username repo. ts)\<rparr>"

text \<open>
  The vulnerability check switched on with the threshold \<open>medium\<close>, the scan store
  answering with the given overview.
\<close>

definition scan_env :: "error + ImgScanOverview option \<Rightarrow> env" where
  "scan_env ov =
     example_env\<lparr>WithClair := True,
                  Getenv := (\<lambda>key. if key = ''PROJECT_VULNERABLE'' then ''1''
                                   else if key = ''PROJECT_SEVERITY'' then ''medium'' else []),
                  GetImgScanOverview := (\<lambda>d. ov)\<rparr>"

definition target_v1 :: "string \<Rightarrow> Target" where
  "target_v1 h = \<lparr>Tag = ''v1'', Hashes = [''sha256'' \<mapsto> h]\<rparr>"

text \<open>
  The state after the forwarder has buffered the registry's answer to
  \<open>checked_request\<close> into a recorder at address 2.
\<close>

definition buffered_state :: state where
  "buffered_state =
     Write 2 ''manifest of /v2/library/ubuntu/manifests/v1''
       (WriteHeader 2 200
         (Header_Set 2 ''Docker-Content-Digest'' ''sha256:bbb''
           ((snd (NewRecorder init_state))\<lparr>rec := Some 2\<rparr>)))"

text \<open>
  The text of an error body, written out: the JSON object with the members \<open>code\<close>,
  \<open>message\<close> and \<open>details\<close>, the last two holding the same text. \<open>code\<close> is the decimal
  text of the code and \<open>msg\<close> the message as it stands between the quotes.
\<close>

definition error_object :: "string \<Rightarrow> string \<Rightarrow> string" where
  "error_object code msg =
     [CHR ''{'', CHR 0x22] @ ''code'' @ [CHR 0x22, CHR '':''] @ code @
     [CHR '','', CHR 0x22] @ ''message'' @ [CHR 0x22, CHR '':'', CHR 0x22] @ msg @
     [CHR 0x22, CHR '','', CHR 0x22] @ ''details'' @ [CHR 0x22, CHR '':'', CHR 0x22] @ msg @
     [CHR 0x22, CHR ''}'']"

text \<open>
  \<open>answered res st rw code out\<close>: the handler returned, and against the state \<open>st\<close> it was
  started in, the client at \<open>rw\<close> has received the status \<open>code\<close> and the line \<open>out\<close>,
  while \<open>rec\<close> and every other writer are as they were.
\<close>

definition answered :: "state option \<Rightarrow> state \<Rightarrow> nat \<Rightarrow> int \<Rightarrow> string \<Rightarrow> bool" where
  "answered res st rw code out \<longleftrightarrow>
     (\<exists>st'. res = Some st' \<and>
        StatusCode (heap st' rw) = code \<and>
        Body (heap st' rw) = Body (heap st rw) @ out @ [CHR 0x0A] \<and>
        rec st' = rec st \<and> (\<forall>a. a \<noteq> rw \<longrightarrow> heap st' a = heap st a))"

text \<open>A signed target with the tag of the example image and no sha256 hash.\<close>

definition target_without_hash :: Target where
  "target_without_hash = \<lparr>Tag = ''v1'', Hashes = Map.empty\<rparr>"

section \<open>The matcher computes the language\<close>














































section \<open>Claims about the request matcher\<close>




section \<open>Facts about the state and the response writers\<close>

lemma log_call_simps [simp]:
  "heap (log_call c st) = heap st" "rec (log_call c st) = rec st"
  "next_addr (log_call c st) = next_addr st" "calls (log_call c st) = calls st @ [c]"
  by (simp_all add: log_call_def)

lemma upd_simps [simp]:
  "heap (upd a f st) = (heap st)(a := f (heap st a))" "rec (upd a f st) = rec st"
  "next_addr (upd a f st) = next_addr st" "calls (upd a f st) = calls st"
  by (simp_all add: upd_def)

lemma contentTrustEnabled_state:
  "heap (snd (contentTrustEnabled e pc name st)) = heap st"
  "rec (snd (contentTrustEnabled e pc name st)) = rec st"
  "next_addr (snd (contentTrustEnabled e pc name st)) = next_addr st"
  "calls (snd (contentTrustEnabled e pc name st)) = calls st \<or>
   calls (snd (contentTrustEnabled e pc name st)) = calls st @ [CallPMGet name]"
  by (cases pc; simp split: sum.splits)+

lemma vulnerablePolicy_state:
  "heap (snd (vulnerablePolicy e pc name st)) = heap st"
  "rec (snd (vulnerablePolicy e pc name st)) = rec st"
  "next_addr (snd (vulnerablePolicy e pc name st)) = next_addr st"
  "calls (snd (vulnerablePolicy e pc name st)) = calls st \<or>
   calls (snd (vulnerablePolicy e pc name st)) = calls st @ [CallPMGet name]"
  by (cases pc; simp split: sum.splits)+

lemma http_Error_state [simp]:
  "rec (http_Error rw err code st) = rec st"
  "next_addr (http_Error rw err code st) = next_addr st"
  "calls (http_Error rw err code st) = calls st"
  "a \<noteq> rw \<Longrightarrow> heap (http_Error rw err code st) a = heap st a"
  by (simp_all add: http_Error_def Write_def WriteHeader_def Header_Set_def)

lemma http_Error_fresh:
  assumes "\<not> wroteHeader (heap st rw)"
  shows "StatusCode (heap (http_Error rw err code st) rw) = code"
    and "Body (heap (http_Error rw err code st) rw) = Body (heap st rw) @ err @ [CHR 0x0A]"
    and "wroteHeader (heap (http_Error rw err code st) rw)"
  using assms
  by (simp_all add: http_Error_def Write_def WriteHeader_def Header_Set_def writeHeader_def)

lemma copyResp_Some:
  assumes "r \<noteq> rw" "\<not> wroteHeader (heap st rw)"
  shows "\<exists>st'. copyResp (Some r) rw st = Some st' \<and>
     HeaderMap (heap st' rw) = HeaderMap (heap st rw) ++ HeaderMap (heap st r) \<and>
     snapHeader (heap st' rw) = HeaderMap (heap st rw) ++ HeaderMap (heap st r) \<and>
     StatusCode (heap st' rw) = Result_StatusCode (heap st r) \<and>
     Body (heap st' rw) = Body (heap st rw) @ Body (heap st r) \<and>
     (\<forall>a. a \<noteq> rw \<longrightarrow> heap st' a = heap st a) \<and>
     rec st' = rec st \<and> calls st' = calls st \<and> next_addr st' = next_addr st"
  using assms
  by (simp add: copyResp_def Let_def Write_def WriteHeader_def writeHeader_def)

section \<open>Facts about the error body\<close>

lemma marshalError_text:
  "code \<noteq> 0 \<Longrightarrow> msg \<noteq> [] \<Longrightarrow>
   marshalError msg code =
     ''{'' @ json_string ''code'' @ '':'' @ Itoa code @ '','' @
     json_string ''message'' @ '':'' @ json_string msg @ '','' @
     json_string ''details'' @ '':'' @ json_string msg @ ''}''"
  by (simp add: marshalError_def json_Marshal_def)

lemma json_keys:
  "json_string ''code'' = CHR 0x22 # ''code'' @ [CHR 0x22]"
  "json_string ''message'' = CHR 0x22 # ''message'' @ [CHR 0x22]"
  "json_string ''details'' = CHR 0x22 # ''details'' @ [CHR 0x22]"
  "Itoa 412 = ''412''" "Itoa 500 = ''500''"
  by code_simp+

lemma marshalError_error_object:
  assumes "msg \<noteq> []"
  shows "marshalError msg 412 = error_object ''412'' (concat (map json_char msg))"
    and "marshalError msg 500 = error_object ''500'' (concat (map json_char msg))"
  using assms
  by (simp_all add: marshalError_text json_keys error_object_def json_string_def[of msg])

lemma json_plain_messages:
  "concat (map json_char ''The severity of vulnerability of the image: '') =
     ''The severity of vulnerability of the image: ''"
  "concat (map json_char '' is equal or higher than the threshold in project setting: '') =
     '' is equal or higher than the threshold in project setting: ''"
  "concat (map json_char ''.'') = ''.''"
  by code_simp+

lemma marshalError_fixed:
  "marshalError ''Failed in communication with Notary please check the log'' 500 =
     error_object ''500'' ''Failed in communication with Notary please check the log''"
  "marshalError ''The image is not signed in Notary.'' 412 =
     error_object ''412'' ''The image is not signed in Notary.''"
  "marshalError ''Failed to get ImgScanOverview.'' 412 =
     error_object ''412'' ''Failed to get ImgScanOverview.''"
  "marshalError ''Cannot get the image scan overview info.'' 412 =
     error_object ''412'' ''Cannot get the image scan overview info.''"
  by code_simp+

lemma marshalError_severity:
  "marshalError (''The severity of vulnerability of the image: '' @ q1 @
                 '' is equal or higher than the threshold in project setting: '' @ q2 @ ''.'')
     412 =
   error_object ''412''
     (''The severity of vulnerability of the image: '' @ concat (map json_char q1) @
      '' is equal or higher than the threshold in project setting: '' @
      concat (map json_char q2) @ ''.'')"
proof -
  have eq: "concat (map json_char
          (''The severity of vulnerability of the image: '' @ q1 @
           '' is equal or higher than the threshold in project setting: '' @ q2 @ ''.'')) =
        ''The severity of vulnerability of the image: '' @ concat (map json_char q1) @
        '' is equal or higher than the threshold in project setting: '' @
        concat (map json_char q2) @ ''.''"
    by (simp only: map_append concat_append json_plain_messages)
  have ne: "''The severity of vulnerability of the image: '' @ q1 @
           '' is equal or higher than the threshold in project setting: '' @ q2 @ ''.'' \<noteq> []"
    by simp
  show ?thesis
    by (simp only: marshalError_error_object(1)[OF ne] eq)
qed

lemma http_Error_answered:
  assumes "\<not> wroteHeader (heap st0 rw)" and "heap st = heap st0" and "rec st = rec st0"
  shows "answered (Some (http_Error rw out code st)) st0 rw code out"
  unfolding answered_def
  using http_Error_fresh[of st rw out code] assms
  by (intro exI[of _ "http_Error rw out code st"]) simp

lemma answered_client:
  "answered res st rw code out \<Longrightarrow> Body (heap st rw) = [] \<Longrightarrow>
   map_option (\<lambda>s. (StatusCode (heap s rw), Body (heap s rw))) res
     = Some (code, out @ [CHR 0x0A])"
  by (auto simp: answered_def)

lemma buffered_state_client:
  "\<not> wroteHeader (heap buffered_state 0)" "Body (heap buffered_state 0) = []"
  by (simp_all add: buffered_state_def Write_def WriteHeader_def Header_Set_def
        NewRecorder_def init_state_def fresh_writer_def)

section \<open>Facts about the handlers\<close>

lemma matchTargets_find:
  "matchTargets e img ts =
     (case find (\<lambda>t. Tag t = tag img) ts of
        None \<Rightarrow> Inr False
      | Some t \<Rightarrow>
          (case DigestFromTarget e t of Inl err \<Rightarrow> Inl err | Inr d \<Rightarrow> Inr (digest img = d)))"
  by (induction ts) simp_all

lemma matchTargets_first:
  "\<forall>t \<in> set pre. Tag t \<noteq> tag img \<Longrightarrow> Tag t = tag img \<Longrightarrow>
   matchTargets e img (pre @ t # post) =
     (case DigestFromTarget e t of Inl err \<Rightarrow> Inl err | Inr d \<Rightarrow> Inr (digest img = d))"
  by (induction pre) simp_all

lemma matchTargets_none:
  "\<forall>t \<in> set ts. Tag t \<noteq> tag img \<Longrightarrow> matchTargets e img ts = Inr False"
  by (induction ts) simp_all

lemma matchNotaryDigest_fst:
  "fst (matchNotaryDigest e img st) =
     (case GetInternalTargets e (NotaryEndpoint e) tokenUsername (repository img) of
        Inl err \<Rightarrow> Inl err
      | Inr targets \<Rightarrow> matchTargets e img targets)"
  by (simp add: matchNotaryDigest_def Let_def split: sum.splits)

lemma urlHandler_nonOK:
  assumes m: "MatchPullManifest (req\<lparr>Path := TrimPrefix (Path req) (RegistryProxyPrefix e)\<rparr>)
                = (True, repo, tg)"
    and comps: "2 \<le> length (SplitN repo ''/'' 2)"
    and nx: "nxt (fst (NewRecorder st))
               (req\<lparr>Path := TrimPrefix (Path req) (RegistryProxyPrefix e)\<rparr>)
               ((snd (NewRecorder st))\<lparr>rec := Some (fst (NewRecorder st))\<rparr>) = Some st3"
    and r: "rec st3 = Some r"
    and code: "Result_StatusCode (heap st3 r) \<noteq> 200"
  shows "urlHandler e nxt rw req st = copyResp (Some r) rw st3"
proof -
  have cr: "copyResp (Some r) rw st3 \<noteq> None" by (simp add: copyResp_def Let_def)
  obtain a st1 where nr: "NewRecorder st = (a, st1)" by (cases "NewRecorder st")
  from nx have nx': "nxt a (req\<lparr>Path := TrimPrefix (Path req) (RegistryProxyPrefix e)\<rparr>)
                       (st1\<lparr>rec := Some a\<rparr>) = Some st3"
    by (simp add: nr)
  from comps have c': "\<not> length (SplitN repo ''/'' 2) < 2" by simp
  have "urlHandler_intercept e nxt rw req st =
          (case copyResp (Some r) rw st3 of None \<Rightarrow> Panic | Some st4 \<Rightarrow> Return st4)"
    unfolding urlHandler_intercept_def
    by (simp add: m c' nr nx' r code Let_def del: SplitN.simps)
  with cr show ?thesis
    by (auto simp: urlHandler_def split: option.splits)
qed

lemma policy_chain_skip:
  "Context req = None \<Longrightarrow> policy_chain e proxy rw req st = proxy rw req st"
  by (simp add: policy_chain_def contentTrustHandler_def vulnerableHandler_def
        funnelHandler_def)

section \<open>Claims about the error body\<close>

text \<open>
  Claim C1 asks that the code in the body of every error response equals the status of the
  response. The branch for a repository path without a project does not keep this: the
  body is marshalled with 500 and the response is sent with 400. A GET for
  \<open>/registryproxy/v2/singletoken/manifests/latest\<close> is answered with status 400 and the
  body \<open>{"code":500,"message":"Bad repository name: singletoken","details":"Bad repository
  name: singletoken"}\<close>.
\<close>

theorem urlHandler_bad_repository_code_mismatch:
  "map_option (\<lambda>s. (StatusCode (heap s 0), Body (heap s 0)))
     (urlHandler example_env example_registry 0
        (pull_request ''/registryproxy/v2/singletoken/manifests/latest'') init_state) =
   Some (400,
         [CHR ''{'', CHR 0x22] @ ''code'' @ [CHR 0x22] @ '':500,'' @
         [CHR 0x22] @ ''message'' @ [CHR 0x22, CHR '':'', CHR 0x22] @
         ''Bad repository name: singletoken'' @ [CHR 0x22, CHR '','', CHR 0x22] @
         ''details'' @ [CHR 0x22, CHR '':'', CHR 0x22] @
         ''Bad repository name: singletoken'' @ [CHR 0x22, CHR ''}'', CHR 0x0A])"
  by code_simp

section \<open>Claims about the buffered response\<close>

text \<open>
  Claim C3 asks that no request ever replays the buffered response of another. The
  recorder is kept in the package variable \<open>rec\<close>, which every matched request overwrites
  and the release stage reads. Take two pulls, of \<open>library/alpha\<close> by the client at
  address 0 and of \<open>library/beta\<close> by the client at address 1. When the second is served
  after the first has buffered its manifest and before the first reaches the release stage,
  the first client receives the manifest of \<open>library/beta\<close>.
\<close>

theorem shared_recorder_replays_other_response:
  "(case urlHandler_intercept example_env (policy_chain example_env example_registry) 0
           (pull_request ''/registryproxy/v2/library/alpha/manifests/latest'') init_state of
      Forward reqA stA \<Rightarrow>
        (case handlerChain example_env example_registry 1
                (pull_request ''/registryproxy/v2/library/beta/manifests/latest'') stA of
           Some stB \<Rightarrow>
             map_option (\<lambda>s. (StatusCode (heap s 0), Body (heap s 0)))
               (policy_chain example_env example_registry 0 reqA stB)
         | None \<Rightarrow> None)
    | Return stA \<Rightarrow> None
    | Panic \<Rightarrow> None) =
   Some (200, ''manifest of /v2/library/beta/manifests/latest'')"
  by code_simp

text \<open>
  Claim C4. Let a request match the manifest pattern and name a project, and let the
  buffered answer of the rest of the chain have a status other than 200. Then the handler
  does nothing but replay the recorder to the client: the rest of the chain has been called
  once, with the recorder and with the context of the request as it came; with no image
  information in that context the policy stages pass it straight to the registry, so the
  whole chain is the registry's answer followed by the replay. The replay makes no call to a
  collaborator and, on a client writer not yet written to, gives the client the buffered
  status, header and body.
\<close>

theorem nonOK_response_replayed_without_policy:
  assumes m: "MatchPullManifest (req\<lparr>Path := TrimPrefix (Path req) (RegistryProxyPrefix e)\<rparr>)
                = (True, repo, tg)"
    and comps: "2 \<le> length (SplitN repo ''/'' 2)"
    and r: "rec st3 = Some r"
    and code: "Result_StatusCode (heap st3 r) \<noteq> 200"
  shows
   "(nxt (fst (NewRecorder st))
       (req\<lparr>Path := TrimPrefix (Path req) (RegistryProxyPrefix e)\<rparr>)
       ((snd (NewRecorder st))\<lparr>rec := Some (fst (NewRecorder st))\<rparr>) = Some st3 \<longrightarrow>
     urlHandler e nxt rw req st = copyResp (Some r) rw st3) \<and>
    (Context req = None \<and>
     proxy (fst (NewRecorder st))
       (req\<lparr>Path := TrimPrefix (Path req) (RegistryProxyPrefix e)\<rparr>)
       ((snd (NewRecorder st))\<lparr>rec := Some (fst (NewRecorder st))\<rparr>) = Some st3 \<longrightarrow>
     handlerChain e proxy rw req st = copyResp (Some r) rw st3) \<and>
    (\<exists>st4. copyResp (Some r) rw st3 = Some st4 \<and> calls st4 = calls st3 \<and>
       (r \<noteq> rw \<and> \<not> wroteHeader (heap st3 rw) \<longrightarrow>
          StatusCode (heap st4 rw) = Result_StatusCode (heap st3 r) \<and>
          Body (heap st4 rw) = Body (heap st3 rw) @ Body (heap st3 r) \<and>
          HeaderMap (heap st4 rw) = HeaderMap (heap st3 rw) ++ HeaderMap (heap st3 r)))"
proof (intro conjI impI)
  assume "nxt (fst (NewRecorder st))
         (req\<lparr>Path := TrimPrefix (Path req) (RegistryProxyPrefix e)\<rparr>)
         ((snd (NewRecorder st))\<lparr>rec := Some (fst (NewRecorder st))\<rparr>) = Some st3"
  from urlHandler_nonOK[where nxt = nxt, OF m comps this r code]
  show "urlHandler e nxt rw req st = copyResp (Some r) rw st3" .
next
  assume a: "Context req = None \<and>
       proxy (fst (NewRecorder st))
         (req\<lparr>Path := TrimPrefix (Path req) (RegistryProxyPrefix e)\<rparr>)
         ((snd (NewRecorder st))\<lparr>rec := Some (fst (NewRecorder st))\<rparr>) = Some st3"
  then have "policy_chain e proxy (fst (NewRecorder st))
         (req\<lparr>Path := TrimPrefix (Path req) (RegistryProxyPrefix e)\<rparr>)
         ((snd (NewRecorder st))\<lparr>rec := Some (fst (NewRecorder st))\<rparr>) = Some st3"
    by (simp add: policy_chain_skip)
  from urlHandler_nonOK[where nxt = "policy_chain e proxy", OF m comps this r code]
  show "handlerChain e proxy rw req st = copyResp (Some r) rw st3"
    by (simp add: handlerChain_def)
next
  show "\<exists>st4. copyResp (Some r) rw st3 = Some st4 \<and> calls st4 = calls st3 \<and>
       (r \<noteq> rw \<and> \<not> wroteHeader (heap st3 rw) \<longrightarrow>
          StatusCode (heap st4 rw) = Result_StatusCode (heap st3 r) \<and>
          Body (heap st4 rw) = Body (heap st3 rw) @ Body (heap st3 r) \<and>
          HeaderMap (heap st4 rw) = HeaderMap (heap st3 rw) ++ HeaderMap (heap st3 r))"
    by (simp add: copyResp_def Let_def Write_def WriteHeader_def writeHeader_def)
qed

text \<open>
  The example of the specification: the registry answers 404 for a manifest it does not
  have; with content trust switched on and nothing signed, the client still sees the 404
  and its body, and no collaborator has been called.
\<close>

theorem nonOK_response_replayed_without_policy_witness:
  "handlerChain (trust_env (Inr [])) example_registry 0
     (pull_request ''/registryproxy/v2/library/missing/manifests/latest'') init_state =
   copyResp (Some 2) 0
     (Write 2 ''manifest unknown''
        (WriteHeader 2 404 ((snd (NewRecorder init_state))\<lparr>rec := Some 2\<rparr>))) \<and>
   map_option (\<lambda>s. (StatusCode (heap s 0), Body (heap s 0), calls s))
     (handlerChain (trust_env (Inr [])) example_registry 0
        (pull_request ''/registryproxy/v2/library/missing/manifests/latest'') init_state) =
   Some (404, ''manifest unknown'', [])"
proof -
  let ?req = "pull_request ''/registryproxy/v2/library/missing/manifests/latest''"
  let ?e = "trust_env (Inr [])"
  let ?st3 = "Write 2 ''manifest unknown''
                (WriteHeader 2 404 ((snd (NewRecorder init_state))\<lparr>rec := Some 2\<rparr>))"
  have m: "MatchPullManifest (?req\<lparr>Path := TrimPrefix (Path ?req) (RegistryProxyPrefix ?e)\<rparr>)
             = (True, ''library/missing'', ''latest'')"
    by code_simp
  have comps: "2 \<le> length (SplitN ''library/missing'' ''/'' 2)" by code_simp
  have r: "rec ?st3 = Some 2" by code_simp
  have code: "Result_StatusCode (heap ?st3 2) \<noteq> 200" by code_simp
  have ctx: "Context ?req = None" by code_simp
  have px: "example_registry (fst (NewRecorder init_state))
       (?req\<lparr>Path := TrimPrefix (Path ?req) (RegistryProxyPrefix ?e)\<rparr>)
       ((snd (NewRecorder init_state))\<lparr>rec := Some (fst (NewRecorder init_state))\<rparr>) = Some ?st3"
    by (simp add: example_registry_def pull_request_def trust_env_def example_env_def
          NewRecorder_def init_state_def TrimPrefix_def)
  from nonOK_response_replayed_without_policy
         [OF m comps r code, where proxy = example_registry and st = init_state and rw = 0]
       ctx px
  have 1: "handlerChain ?e example_registry 0 ?req init_state = copyResp (Some 2) 0 ?st3"
    by blast
  have 2: "map_option (\<lambda>s. (StatusCode (heap s 0), Body (heap s 0), calls s))
             (copyResp (Some 2) 0 ?st3) = Some (404, ''manifest unknown'', [])"
    by code_simp
  from 1 2 show ?thesis by simp
qed

section \<open>Claims about the content-trust stage\<close>

text \<open>
  Claim C10. When the trust service has answered with a list of targets, the outcome of
  \<open>matchNotaryDigest\<close> is read off the first target in list order that carries the tag of
  the image: it is the comparison of the image's digest with that target's digest (or the
  error of reading that digest), whatever targets follow. When no target carries the tag,
  the outcome is \<open>false\<close> without an error.
\<close>

theorem matchNotaryDigest_first_match_decides:
  assumes "GetInternalTargets e (NotaryEndpoint e) tokenUsername (repository img) = Inr targets"
  shows
   "(targets = pre @ t # post \<and> (\<forall>t' \<in> set pre. Tag t' \<noteq> tag img) \<and> Tag t = tag img \<longrightarrow>
       fst (matchNotaryDigest e img st) =
         (case DigestFromTarget e t of
            Inl err \<Rightarrow> Inl err
          | Inr d \<Rightarrow> Inr (digest img = d))) \<and>
    ((\<forall>t' \<in> set targets. Tag t' \<noteq> tag img) \<longrightarrow> fst (matchNotaryDigest e img st) = Inr False)"
  using assms by (auto simp: matchNotaryDigest_fst matchTargets_first matchTargets_none)

theorem matchNotaryDigest_first_match_decides_witness:
  "fst (matchNotaryDigest (trust_env (Inr [target_v1 ''aaa'', target_v1 ''bbb''])) example_image
         init_state) = Inr False \<and>
   fst (matchNotaryDigest (trust_env (Inr [target_v1 ''bbb'', target_v1 ''aaa''])) example_image
         init_state) = Inr True \<and>
   fst (matchNotaryDigest (trust_env (Inr [])) example_image init_state) = Inr False"
proof -
  have g: "GetInternalTargets (trust_env (Inr ts)) (NotaryEndpoint (trust_env (Inr ts)))
             tokenUsername (repository example_image) = Inr ts" for ts
    by (simp add: trust_env_def)
  have tg: "Tag (target_v1 h) = tag example_image" for h
    by (simp add: target_v1_def example_image_def)
  from matchNotaryDigest_first_match_decides
         [OF g, of "[target_v1 ''aaa'', target_v1 ''bbb'']" "[]" "target_v1 ''aaa''"
            "[target_v1 ''bbb'']" init_state] tg
  have 1: "fst (matchNotaryDigest (trust_env (Inr [target_v1 ''aaa'', target_v1 ''bbb'']))
                  example_image init_state) = Inr False"
    by (simp add: trust_env_def example_env_def example_digest_def target_v1_def
          example_image_def)
  from matchNotaryDigest_first_match_decides
         [OF g, of "[target_v1 ''bbb'', target_v1 ''aaa'']" "[]" "target_v1 ''bbb''"
            "[target_v1 ''aaa'']" init_state] tg
  have 2: "fst (matchNotaryDigest (trust_env (Inr [target_v1 ''bbb'', target_v1 ''aaa'']))
                  example_image init_state) = Inr True"
    by (simp add: trust_env_def example_env_def example_digest_def target_v1_def
          example_image_def)
  from matchNotaryDigest_first_match_decides[OF g, of "[]" _ _ _ init_state]
  have 3: "fst (matchNotaryDigest (trust_env (Inr [])) example_image init_state) = Inr False"
    by simp
  from 1 2 3 show ?thesis by simp
qed

text \<open>
  Claim C5, as the code has it. The stage hands the request on, with no call to the trust
  service, when the context holds no image information, when Notary is switched off, or
  when the project's policy does not ask for content trust. Otherwise it asks the trust
  service for the targets of the repository, and
  \<^item> answers 500 with a fixed message when the trust service fails, or when the digest of
    the first target carrying the image's tag cannot be read;
  \<^item> answers 412 with the message that the image is not signed when no target carries the
    tag, or when the digest of the first target carrying it differs from the image's;
  \<^item> hands the request on when the digest of the first target carrying the tag equals the
    image's digest.

  The last part of the statement gives what the client receives in each of these cases when
  nothing has been written to it before: the status 500 with the body
  \<open>{"code":500,"message":"Failed in communication with Notary please check the
  log","details":...}\<close>, or the status 412 with the body \<open>{"code":412,"message":"The image is
  not signed in Notary.","details":...}\<close>, each followed by a newline.
\<close>

theorem contentTrustHandler_decision:
  "(Context req = None \<or> \<not> WithNotary e \<longrightarrow>
      contentTrustHandler e nxt rw req st = nxt rw req st) \<and>
   (Context req = Some img \<and> WithNotary e \<and>
    contentTrustEnabled e (getPolicyChecker e) (projectName img) st = (enabled, st1) \<longrightarrow>
      (\<not> enabled \<longrightarrow>
         contentTrustHandler e nxt rw req st = nxt rw req st1 \<and>
         (calls st1 = calls st \<or> calls st1 = calls st @ [CallPMGet (projectName img)])) \<and>
      (enabled \<and>
       GetInternalTargets e (NotaryEndpoint e) tokenUsername (repository img) = Inl err \<longrightarrow>
         contentTrustHandler e nxt rw req st =
           Some (http_Error rw
                  (marshalError ''Failed in communication with Notary please check the log'' 500)
                  500
                  (log_call (CallGetInternalTargets (NotaryEndpoint e) tokenUsername
                               (repository img)) st1))) \<and>
      (enabled \<and>
       GetInternalTargets e (NotaryEndpoint e) tokenUsername (repository img) = Inr targets \<longrightarrow>
         contentTrustHandler e nxt rw req st =
           (case find (\<lambda>t. Tag t = tag img) targets of
              None \<Rightarrow>
                Some (http_Error rw (marshalError ''The image is not signed in Notary.'' 412) 412
                       (log_call (CallGetInternalTargets (NotaryEndpoint e) tokenUsername
                                    (repository img)) st1))
            | Some t \<Rightarrow>
               (case DigestFromTarget e t of
                  Inl err' \<Rightarrow>
                    Some (http_Error rw
                           (marshalError
                              ''Failed in communication with Notary please check the log'' 500)
                           500
                           (log_call (CallGetInternalTargets (NotaryEndpoint e) tokenUsername
                                        (repository img)) st1))
                | Inr d \<Rightarrow>
                    if digest img = d then
                      nxt rw req
                        (log_call (CallGetInternalTargets (NotaryEndpoint e) tokenUsername
                                     (repository img)) st1)
                    else
                      Some (http_Error rw
                             (marshalError ''The image is not signed in Notary.'' 412) 412
                             (log_call (CallGetInternalTargets (NotaryEndpoint e) tokenUsername
                                          (repository img)) st1)))))) \<and>
   (Context req = Some img \<and> WithNotary e \<and>
    contentTrustEnabled e (getPolicyChecker e) (projectName img) st = (True, st1) \<and>
    \<not> wroteHeader (heap st rw) \<longrightarrow>
      (GetInternalTargets e (NotaryEndpoint e) tokenUsername (repository img) = Inl err \<longrightarrow>
         answered (contentTrustHandler e nxt rw req st) st rw 500
           (error_object ''500''
              ''Failed in communication with Notary please check the log'')) \<and>
      (GetInternalTargets e (NotaryEndpoint e) tokenUsername (repository img) = Inr targets \<longrightarrow>
         (case find (\<lambda>t. Tag t = tag img) targets of
            None \<Rightarrow>
              answered (contentTrustHandler e nxt rw req st) st rw 412
                (error_object ''412'' ''The image is not signed in Notary.'')
          | Some t \<Rightarrow>
             (case DigestFromTarget e t of
                Inl err' \<Rightarrow>
                  answered (contentTrustHandler e nxt rw req st) st rw 500
                    (error_object ''500''
                       ''Failed in communication with Notary please check the log'')
              | Inr d \<Rightarrow>
                  if digest img = d then
                    contentTrustHandler e nxt rw req st =
                      nxt rw req
                        (log_call (CallGetInternalTargets (NotaryEndpoint e) tokenUsername
                                     (repository img)) st1)
                  else
                    answered (contentTrustHandler e nxt rw req st) st rw 412
                      (error_object ''412'' ''The image is not signed in Notary.'')))))"
proof (intro conjI impI)
  assume "Context req = None \<or> \<not> WithNotary e"
  then show "contentTrustHandler e nxt rw req st = nxt rw req st"
    by (auto simp: contentTrustHandler_def split: option.splits)
next
  assume a: "Context req = Some img \<and> WithNotary e \<and>
      contentTrustEnabled e (getPolicyChecker e) (projectName img) st = (enabled, st1)"
  assume "\<not> enabled"
  with a show "contentTrustHandler e nxt rw req st = nxt rw req st1"
    by (simp add: contentTrustHandler_def)
next
  assume a: "Context req = Some img \<and> WithNotary e \<and>
      contentTrustEnabled e (getPolicyChecker e) (projectName img) st = (enabled, st1)"
  from contentTrustEnabled_state(4)[of e "getPolicyChecker e" "projectName img" st] a
  show "calls st1 = calls st \<or> calls st1 = calls st @ [CallPMGet (projectName img)]"
    by simp
next
  assume a: "Context req = Some img \<and> WithNotary e \<and>
      contentTrustEnabled e (getPolicyChecker e) (projectName img) st = (enabled, st1)"
    and "enabled \<and>
       GetInternalTargets e (NotaryEndpoint e) tokenUsername (repository img) = Inl err"
  then show "contentTrustHandler e nxt rw req st =
           Some (http_Error rw
                  (marshalError ''Failed in communication with Notary please check the log'' 500)
                  500
                  (log_call (CallGetInternalTargets (NotaryEndpoint e) tokenUsername
                               (repository img)) st1))"
    by (simp add: contentTrustHandler_def matchNotaryDigest_def)
next
  assume a: "Context req = Some img \<and> WithNotary e \<and>
      contentTrustEnabled e (getPolicyChecker e) (projectName img) st = (enabled, st1)"
    and "enabled \<and>
       GetInternalTargets e (NotaryEndpoint e) tokenUsername (repository img) = Inr targets"
  then show "contentTrustHandler e nxt rw req st =
           (case find (\<lambda>t. Tag t = tag img) targets of
              None \<Rightarrow>
                Some (http_Error rw (marshalError ''The image is not signed in Notary.'' 412) 412
                       (log_call (CallGetInternalTargets (NotaryEndpoint e) tokenUsername
                                    (repository img)) st1))
            | Some t \<Rightarrow>
               (case DigestFromTarget e t of
                  Inl err' \<Rightarrow>
                    Some (http_Error rw
                           (marshalError
                              ''Failed in communication with Notary please check the log'' 500)
                           500
                           (log_call (CallGetInternalTargets (NotaryEndpoint e) tokenUsername
                                        (repository img)) st1))
                | Inr d \<Rightarrow>
                    if digest img = d then
                      nxt rw req
                        (log_call (CallGetInternalTargets (NotaryEndpoint e) tokenUsername
                                     (repository img)) st1)
                    else
                      Some (http_Error rw
                             (marshalError ''The image is not signed in Notary.'' 412) 412
                             (log_call (CallGetInternalTargets (NotaryEndpoint e) tokenUsername
                                          (repository img)) st1))))"
    by (simp add: contentTrustHandler_def matchNotaryDigest_def matchTargets_find
             split: option.splits sum.splits)
next
  assume h: "Context req = Some img \<and> WithNotary e \<and>
    contentTrustEnabled e (getPolicyChecker e) (projectName img) st = (True, st1) \<and>
    \<not> wroteHeader (heap st rw)"
    and g: "GetInternalTargets e (NotaryEndpoint e) tokenUsername (repository img) = Inl err"
  from h contentTrustEnabled_state(1,2)[of e "getPolicyChecker e" "projectName img" st]
  have h1: "heap st1 = heap st" "rec st1 = rec st" by simp_all
  have "answered
          (Some (http_Error rw
                   (error_object ''500''
                      ''Failed in communication with Notary please check the log'')
                   500
                   (log_call (CallGetInternalTargets (NotaryEndpoint e) tokenUsername
                                (repository img)) st1)))
          st rw 500
          (error_object ''500'' ''Failed in communication with Notary please check the log'')"
    by (rule http_Error_answered) (use h h1 in simp_all)
  with h g show "answered (contentTrustHandler e nxt rw req st) st rw 500
           (error_object ''500''
              ''Failed in communication with Notary please check the log'')"
    by (simp add: contentTrustHandler_def matchNotaryDigest_def marshalError_fixed)
next
  assume h: "Context req = Some img \<and> WithNotary e \<and>
    contentTrustEnabled e (getPolicyChecker e) (projectName img) st = (True, st1) \<and>
    \<not> wroteHeader (heap st rw)"
    and g: "GetInternalTargets e (NotaryEndpoint e) tokenUsername (repository img) = Inr targets"
  from h contentTrustEnabled_state(1,2)[of e "getPolicyChecker e" "projectName img" st]
  have h1: "heap st1 = heap st" "rec st1 = rec st" by simp_all
  have ans: "answered
          (Some (http_Error rw out code
                   (log_call (CallGetInternalTargets (NotaryEndpoint e) tokenUsername
                                (repository img)) st1)))
          st rw code out" for out code
    by (rule http_Error_answered) (use h h1 in simp_all)
  from h g show
    "case find (\<lambda>t. Tag t = tag img) targets of
       None \<Rightarrow>
         answered (contentTrustHandler e nxt rw req st) st rw 412
           (error_object ''412'' ''The image is not signed in Notary.'')
     | Some t \<Rightarrow>
        (case DigestFromTarget e t of
           Inl err' \<Rightarrow>
             answered (contentTrustHandler e nxt rw req st) st rw 500
               (error_object ''500''
                  ''Failed in communication with Notary please check the log'')
         | Inr d \<Rightarrow>
             if digest img = d then
               contentTrustHandler e nxt rw req st =
                 nxt rw req
                   (log_call (CallGetInternalTargets (NotaryEndpoint e) tokenUsername
                                (repository img)) st1)
             else
               answered (contentTrustHandler e nxt rw req st) st rw 412
                 (error_object ''412'' ''The image is not signed in Notary.''))"
    by (simp add: contentTrustHandler_def matchNotaryDigest_def matchTargets_find
          marshalError_fixed ans split: option.splits sum.splits)
qed

text \<open>
  The five outcomes on the example request, with content trust switched on: the image
  signed under its tag and digest (the request goes on and the buffered manifest is
  released, after one call to the trust service); the trust service failing; nothing signed;
  the tag signed with another digest; the tag signed with a target whose digest cannot be
  read.
\<close>

theorem contentTrustHandler_decision_witness:
  "contentTrustHandler (trust_env (Inr [target_v1 ''bbb''])) (funnelHandler example_registry) 0
     checked_request buffered_state =
   funnelHandler example_registry 0 checked_request
     (log_call (CallGetInternalTargets ''http://notary-server:4443'' ''harbor-ui''
                  ''library/ubuntu'') buffered_state) \<and>
   map_option (\<lambda>s. (StatusCode (heap s 0), Body (heap s 0), calls s))
     (contentTrustHandler (trust_env (Inr [target_v1 ''bbb''])) (funnelHandler example_registry) 0
        checked_request buffered_state) =
   Some (200, ''manifest of /v2/library/ubuntu/manifests/v1'',
         [CallGetInternalTargets ''http://notary-server:4443'' ''harbor-ui'' ''library/ubuntu'']) \<and>
   map_option (\<lambda>s. (StatusCode (heap s 0), Body (heap s 0)))
     (contentTrustHandler (trust_env (Inl (Error ''notary is down'')))
        (funnelHandler example_registry) 0 checked_request buffered_state) =
   Some (500,
         [CHR ''{'', CHR 0x22] @ ''code'' @ [CHR 0x22] @ '':500,'' @
         [CHR 0x22] @ ''message'' @ [CHR 0x22, CHR '':'', CHR 0x22] @
         ''Failed in communication with Notary please check the log'' @
         [CHR 0x22, CHR '','', CHR 0x22] @ ''details'' @ [CHR 0x22, CHR '':'', CHR 0x22] @
         ''Failed in communication with Notary please check the log'' @
         [CHR 0x22, CHR ''}'', CHR 0x0A]) \<and>
   map_option (\<lambda>s. (StatusCode (heap s 0), Body (heap s 0)))
     (contentTrustHandler (trust_env (Inr [])) (funnelHandler example_registry) 0
        checked_request buffered_state) =
   Some (412,
         [CHR ''{'', CHR 0x22] @ ''code'' @ [CHR 0x22] @ '':412,'' @
         [CHR 0x22] @ ''message'' @ [CHR 0x22, CHR '':'', CHR 0x22] @
         ''The image is not signed in Notary.'' @
         [CHR 0x22, CHR '','', CHR 0x22] @ ''details'' @ [CHR 0x22, CHR '':'', CHR 0x22] @
         ''The image is not signed in Notary.'' @ [CHR 0x22, CHR ''}'', CHR 0x0A]) \<and>
   map_option (\<lambda>s. (StatusCode (heap s 0), Body (heap s 0)))
     (contentTrustHandler (trust_env (Inr [target_v1 ''aaa''])) (funnelHandler example_registry) 0
        checked_request buffered_state) =
   Some (412,
         [CHR ''{'', CHR 0x22] @ ''code'' @ [CHR 0x22] @ '':412,'' @
         [CHR 0x22] @ ''message'' @ [CHR 0x22, CHR '':'', CHR 0x22] @
         ''The image is not signed in Notary.'' @
         [CHR 0x22, CHR '','', CHR 0x22] @ ''details'' @ [CHR 0x22, CHR '':'', CHR 0x22] @
         ''The image is not signed in Notary.'' @ [CHR 0x22, CHR ''}'', CHR 0x0A]) \<and>
   map_option (\<lambda>s. (StatusCode (heap s 0), Body (heap s 0)))
     (contentTrustHandler (trust_env (Inr [target_without_hash]))
        (funnelHandler example_registry) 0 checked_request buffered_state) =
   Some (500,
         [CHR ''{'', CHR 0x22] @ ''code'' @ [CHR 0x22] @ '':500,'' @
         [CHR 0x22] @ ''message'' @ [CHR 0x22, CHR '':'', CHR 0x22] @
         ''Failed in communication with Notary please check the log'' @
         [CHR 0x22, CHR '','', CHR 0x22] @ ''details'' @ [CHR 0x22, CHR '':'', CHR 0x22] @
         ''Failed in communication with Notary please check the log'' @
         [CHR 0x22, CHR ''}'', CHR 0x0A])"
proof -
  have h: "Context checked_request = Some example_image \<and> WithNotary (trust_env ts) \<and>
      contentTrustEnabled (trust_env ts) (getPolicyChecker (trust_env ts))
        (projectName example_image) buffered_state = (True, buffered_state)" for ts
    by (simp add: checked_request_def trust_env_def example_env_def getPolicyChecker_def)
  have hf: "Context checked_request = Some example_image \<and> WithNotary (trust_env ts) \<and>
      contentTrustEnabled (trust_env ts) (getPolicyChecker (trust_env ts))
        (projectName example_image) buffered_state = (True, buffered_state) \<and>
      \<not> wroteHeader (heap buffered_state 0)" for ts
    using h[of ts] buffered_state_client(1) by simp
  have g: "GetInternalTargets (trust_env ts) (NotaryEndpoint (trust_env ts)) tokenUsername
             (repository example_image) = ts" for ts
    by (simp add: trust_env_def)
  have g1: "True \<and> GetInternalTargets (trust_env (Inr [target_v1 ''bbb'']))
             (NotaryEndpoint (trust_env (Inr [target_v1 ''bbb'']))) tokenUsername
             (repository example_image) = Inr [target_v1 ''bbb'']"
    by (simp add: trust_env_def)
  from contentTrustHandler_decision
         [of checked_request "trust_env (Inr [target_v1 ''bbb''])"
            "funnelHandler example_registry" 0 buffered_state
            example_image True buffered_state _ "[target_v1 ''bbb'']"] h g1
  have 1: "contentTrustHandler (trust_env (Inr [target_v1 ''bbb'']))
             (funnelHandler example_registry) 0 checked_request buffered_state =
           funnelHandler example_registry 0 checked_request
             (log_call (CallGetInternalTargets ''http://notary-server:4443'' ''harbor-ui''
                          ''library/ubuntu'') buffered_state)"
    by (simp add: trust_env_def example_env_def example_digest_def target_v1_def
          example_image_def tokenUsername_def)
  have 2: "map_option (\<lambda>s. (StatusCode (heap s 0), Body (heap s 0), calls s))
     (funnelHandler example_registry 0 checked_request
        (log_call (CallGetInternalTargets ''http://notary-server:4443'' ''harbor-ui''
                     ''library/ubuntu'') buffered_state)) =
   Some (200, ''manifest of /v2/library/ubuntu/manifests/v1'',
         [CallGetInternalTargets ''http://notary-server:4443'' ''harbor-ui'' ''library/ubuntu''])"
    by code_simp
  have fails: "answered (contentTrustHandler (trust_env (Inl err))
                    (funnelHandler example_registry) 0 checked_request buffered_state)
          buffered_state 0 500
          (error_object ''500'' ''Failed in communication with Notary please check the log'')"
    for err
    by (rule contentTrustHandler_decision
               [of checked_request "trust_env (Inl err)" "funnelHandler example_registry" 0
                   buffered_state example_image True buffered_state err,
                THEN conjunct2, THEN conjunct2, THEN mp, OF hf, THEN conjunct1, THEN mp, OF g])
  have lists: "case find (\<lambda>t. Tag t = tag example_image) ts of
       None \<Rightarrow>
         answered (contentTrustHandler (trust_env (Inr ts)) (funnelHandler example_registry) 0
                     checked_request buffered_state) buffered_state 0 412
           (error_object ''412'' ''The image is not signed in Notary.'')
     | Some t \<Rightarrow>
        (case DigestFromTarget (trust_env (Inr ts)) t of
           Inl err' \<Rightarrow>
             answered (contentTrustHandler (trust_env (Inr ts)) (funnelHandler example_registry)
                         0 checked_request buffered_state) buffered_state 0 500
               (error_object ''500''
                  ''Failed in communication with Notary please check the log'')
         | Inr d \<Rightarrow>
             if digest example_image = d then
               contentTrustHandler (trust_env (Inr ts)) (funnelHandler example_registry) 0
                 checked_request buffered_state =
                 funnelHandler example_registry 0 checked_request
                   (log_call (CallGetInternalTargets (NotaryEndpoint (trust_env (Inr ts)))
                                tokenUsername (repository example_image)) buffered_state)
             else
               answered (contentTrustHandler (trust_env (Inr ts))
                           (funnelHandler example_registry) 0 checked_request buffered_state)
                 buffered_state 0 412
                 (error_object ''412'' ''The image is not signed in Notary.''))"
    for ts
    by (rule contentTrustHandler_decision
               [of checked_request "trust_env (Inr ts)" "funnelHandler example_registry" 0
                   buffered_state example_image True buffered_state _ ts,
                THEN conjunct2, THEN conjunct2, THEN mp, OF hf, THEN conjunct2, THEN mp, OF g])
  from answered_client[OF fails buffered_state_client(2)]
  have 3: "map_option (\<lambda>s. (StatusCode (heap s 0), Body (heap s 0)))
     (contentTrustHandler (trust_env (Inl (Error ''notary is down'')))
        (funnelHandler example_registry) 0 checked_request buffered_state) =
     Some (500, error_object ''500''
                  ''Failed in communication with Notary please check the log'' @ [CHR 0x0A])" .
  from lists[of "[]"]
  have "answered (contentTrustHandler (trust_env (Inr []))
                    (funnelHandler example_registry) 0 checked_request buffered_state)
          buffered_state 0 412
          (error_object ''412'' ''The image is not signed in Notary.'')"
    by simp
  from answered_client[OF this buffered_state_client(2)]
  have 4: "map_option (\<lambda>s. (StatusCode (heap s 0), Body (heap s 0)))
     (contentTrustHandler (trust_env (Inr []))
        (funnelHandler example_registry) 0 checked_request buffered_state) =
     Some (412, error_object ''412'' ''The image is not signed in Notary.'' @ [CHR 0x0A])" .
  from lists[of "[target_v1 ''aaa'']"]
  have "answered (contentTrustHandler (trust_env (Inr [target_v1 ''aaa'']))
                    (funnelHandler example_registry) 0 checked_request buffered_state)
          buffered_state 0 412
          (error_object ''412'' ''The image is not signed in Notary.'')"
    by (simp add: trust_env_def example_env_def example_digest_def target_v1_def
          example_image_def)
  from answered_client[OF this buffered_state_client(2)]
  have 5: "map_option (\<lambda>s. (StatusCode (heap s 0), Body (heap s 0)))
     (contentTrustHandler (trust_env (Inr [target_v1 ''aaa'']))
        (funnelHandler example_registry) 0 checked_request buffered_state) =
     Some (412, error_object ''412'' ''The image is not signed in Notary.'' @ [CHR 0x0A])" .
  from lists[of "[target_without_hash]"]
  have "answered (contentTrustHandler (trust_env (Inr [target_without_hash]))
                    (funnelHandler example_registry) 0 checked_request buffered_state)
          buffered_state 0 500
          (error_object ''500'' ''Failed in communication with Notary please check the log'')"
    by (simp add: trust_env_def example_env_def example_digest_def target_without_hash_def
          example_image_def)
  from answered_client[OF this buffered_state_client(2)]
  have 6: "map_option (\<lambda>s. (StatusCode (heap s 0), Body (heap s 0)))
     (contentTrustHandler (trust_env (Inr [target_without_hash]))
        (funnelHandler example_registry) 0 checked_request buffered_state) =
     Some (500, error_object ''500''
                  ''Failed in communication with Notary please check the log'' @ [CHR 0x0A])" .
  from 1 2 3 4 5 6 show ?thesis
    by (simp add: error_object_def)
qed

text \<open>
  The claim as stated fails where two targets carry the tag: the second target of the
  list below has the tag and the digest of the image, and the request is still answered
  with 412.
\<close>

theorem contentTrustHandler_later_match_counterexample:
  "Tag (target_v1 ''bbb'') = tag example_image \<and>
   DigestFromTarget (trust_env (Inr [target_v1 ''aaa'', target_v1 ''bbb''])) (target_v1 ''bbb'')
     = Inr (digest example_image) \<and>
   map_option (\<lambda>s. StatusCode (heap s 0))
     (contentTrustHandler (trust_env (Inr [target_v1 ''aaa'', target_v1 ''bbb'']))
        (funnelHandler example_registry) 0 checked_request buffered_state) = Some 412"
  by code_simp

section \<open>Claims about the vulnerability stage\<close>

text \<open>
  Claim C6. Let the stage be active: image information in the context, Clair switched
  on, and the project's policy asking for the check; and let nothing have been written to
  the client. When the lookup of the scan overview fails, the client receives the status 412
  and the body \<open>{"code":412,"message":"Failed to get ImgScanOverview.","details":"Failed to
  get ImgScanOverview."}\<close>; when the lookup finds no overview, the client receives the
  status 412 and the body \<open>{"code":412,"message":"Cannot get the image scan overview
  info.","details":"Cannot get the image scan overview info."}\<close>. In both cases the body is
  followed by a newline and by nothing else, the next handler is not called, and the recorder
  and \<open>rec\<close> are untouched.
\<close>

theorem vulnerableHandler_unverifiable_denied:
  assumes ctx: "Context req = Some img" and clair: "WithClair e"
    and pol: "vulnerablePolicy e (getPolicyChecker e) (projectName img) st = ((True, sev), st1)"
    and fresh: "\<not> wroteHeader (heap st rw)"
  shows
   "(GetImgScanOverview e (digest img) = Inl err \<longrightarrow>
      vulnerableHandler e nxt rw req st =
        Some (http_Error rw (marshalError ''Failed to get ImgScanOverview.'' 412) 412
               (log_call (CallGetImgScanOverview (digest img)) st1)) \<and>
      answered (vulnerableHandler e nxt rw req st) st rw 412
        (error_object ''412'' ''Failed to get ImgScanOverview.'')) \<and>
    (GetImgScanOverview e (digest img) = Inr None \<longrightarrow>
      vulnerableHandler e nxt rw req st =
        Some (http_Error rw (marshalError ''Cannot get the image scan overview info.'' 412) 412
               (log_call (CallGetImgScanOverview (digest img)) st1)) \<and>
      answered (vulnerableHandler e nxt rw req st) st rw 412
        (error_object ''412'' ''Cannot get the image scan overview info.'')) \<and>
    (GetImgScanOverview e (digest img) = Inl err \<or>
     GetImgScanOverview e (digest img) = Inr None \<longrightarrow>
      (\<exists>st' msg. vulnerableHandler e nxt rw req st = Some st' \<and>
         StatusCode (heap st' rw) = 412 \<and>
         Body (heap st' rw) = Body (heap st rw) @ marshalError msg 412 @ [CHR 0x0A] \<and>
         rec st' = rec st \<and> (\<forall>a. a \<noteq> rw \<longrightarrow> heap st' a = heap st a)))"
proof -
  from pol vulnerablePolicy_state(1,2)[of e "getPolicyChecker e" "projectName img" st]
  have h1: "heap st1 = heap st" "rec st1 = rec st" by simp_all
  let ?st2 = "log_call (CallGetImgScanOverview (digest img)) st1"
  have ans: "answered (Some (http_Error rw out code ?st2)) st rw code out" for out code
    by (rule http_Error_answered) (use fresh h1 in simp_all)
  have a: "vulnerableHandler e nxt rw req st =
        Some (http_Error rw (marshalError ''Failed to get ImgScanOverview.'' 412) 412 ?st2)"
    if "GetImgScanOverview e (digest img) = Inl err"
    using that by (simp add: vulnerableHandler_def ctx clair pol)
  have b: "vulnerableHandler e nxt rw req st =
        Some (http_Error rw (marshalError ''Cannot get the image scan overview info.'' 412)
               412 ?st2)"
    if "GetImgScanOverview e (digest img) = Inr None"
    using that by (simp add: vulnerableHandler_def ctx clair pol)
  have a': "answered (vulnerableHandler e nxt rw req st) st rw 412
              (error_object ''412'' ''Failed to get ImgScanOverview.'')"
    if "GetImgScanOverview e (digest img) = Inl err"
    using ans[of "error_object ''412'' ''Failed to get ImgScanOverview.''" 412]
    by (simp add: a[OF that] marshalError_fixed)
  have b': "answered (vulnerableHandler e nxt rw req st) st rw 412
              (error_object ''412'' ''Cannot get the image scan overview info.'')"
    if "GetImgScanOverview e (digest img) = Inr None"
    using ans[of "error_object ''412'' ''Cannot get the image scan overview info.''" 412]
    by (simp add: b[OF that] marshalError_fixed)
  have c: "\<exists>st' msg. vulnerableHandler e nxt rw req st = Some st' \<and>
         StatusCode (heap st' rw) = 412 \<and>
         Body (heap st' rw) = Body (heap st rw) @ marshalError msg 412 @ [CHR 0x0A] \<and>
         rec st' = rec st \<and> (\<forall>a. a \<noteq> rw \<longrightarrow> heap st' a = heap st a)"
    if "answered (vulnerableHandler e nxt rw req st) st rw 412 (marshalError msg 412)" for msg
    using that unfolding answered_def by (elim exE conjE) (intro exI conjI; assumption)
  show ?thesis
  proof (intro conjI impI)
    assume g: "GetImgScanOverview e (digest img) = Inl err"
    then show "vulnerableHandler e nxt rw req st =
        Some (http_Error rw (marshalError ''Failed to get ImgScanOverview.'' 412) 412 ?st2)"
      by (rule a)
    from g show "answered (vulnerableHandler e nxt rw req st) st rw 412
        (error_object ''412'' ''Failed to get ImgScanOverview.'')"
      by (rule a')
  next
    assume g: "GetImgScanOverview e (digest img) = Inr None"
    then show "vulnerableHandler e nxt rw req st =
        Some (http_Error rw (marshalError ''Cannot get the image scan overview info.'' 412)
               412 ?st2)"
      by (rule b)
    from g show "answered (vulnerableHandler e nxt rw req st) st rw 412
        (error_object ''412'' ''Cannot get the image scan overview info.'')"
      by (rule b')
  next
    assume "GetImgScanOverview e (digest img) = Inl err \<or>
            GetImgScanOverview e (digest img) = Inr None"
    then show "\<exists>st' msg. vulnerableHandler e nxt rw req st = Some st' \<and>
         StatusCode (heap st' rw) = 412 \<and>
         Body (heap st' rw) = Body (heap st rw) @ marshalError msg 412 @ [CHR 0x0A] \<and>
         rec st' = rec st \<and> (\<forall>a. a \<noteq> rw \<longrightarrow> heap st' a = heap st a)"
    proof (elim disjE)
      assume g: "GetImgScanOverview e (digest img) = Inl err"
      from a'[OF g] show ?thesis
        by (intro c[of "''Failed to get ImgScanOverview.''"]) (simp add: marshalError_fixed)
    next
      assume g: "GetImgScanOverview e (digest img) = Inr None"
      from b'[OF g] show ?thesis
        by (intro c[of "''Cannot get the image scan overview info.''"])
           (simp add: marshalError_fixed)
    qed
  qed
qed

theorem vulnerableHandler_unverifiable_denied_witness:
  "map_option (\<lambda>s. (StatusCode (heap s 0), Body (heap s 0)))
     (vulnerableHandler (scan_env (Inl (Error ''database is down'')))
        (funnelHandler example_registry) 0 checked_request buffered_state) =
   Some (412,
         [CHR ''{'', CHR 0x22] @ ''code'' @ [CHR 0x22] @ '':412,'' @
         [CHR 0x22] @ ''message'' @ [CHR 0x22, CHR '':'', CHR 0x22] @
         ''Failed to get ImgScanOverview.'' @
         [CHR 0x22, CHR '','', CHR 0x22] @ ''details'' @ [CHR 0x22, CHR '':'', CHR 0x22] @
         ''Failed to get ImgScanOverview.'' @ [CHR 0x22, CHR ''}'', CHR 0x0A]) \<and>
   map_option (\<lambda>s. (StatusCode (heap s 0), Body (heap s 0)))
     (vulnerableHandler (scan_env (Inr None))
        (funnelHandler example_registry) 0 checked_request buffered_state) =
   Some (412,
         [CHR ''{'', CHR 0x22] @ ''code'' @ [CHR 0x22] @ '':412,'' @
         [CHR 0x22] @ ''message'' @ [CHR 0x22, CHR '':'', CHR 0x22] @
         ''Cannot get the image scan overview info.'' @
         [CHR 0x22, CHR '','', CHR 0x22] @ ''details'' @ [CHR 0x22, CHR '':'', CHR 0x22] @
         ''Cannot get the image scan overview info.'' @ [CHR 0x22, CHR ''}'', CHR 0x0A]) \<and>
   map_option (\<lambda>s. (rec s, Body (heap s 2)))
     (vulnerableHandler (scan_env (Inr None))
        (funnelHandler example_registry) 0 checked_request buffered_state) =
   Some (Some 2, ''manifest of /v2/library/ubuntu/manifests/v1'')"
proof -
  have ctx: "Context checked_request = Some example_image"
    by (simp add: checked_request_def)
  have clair: "WithClair (scan_env ov)" for ov
    by (simp add: scan_env_def)
  have pol: "vulnerablePolicy (scan_env ov) (getPolicyChecker (scan_env ov))
               (projectName example_image) buffered_state = ((True, 4), buffered_state)" for ov
    by (simp add: scan_env_def example_env_def getPolicyChecker_def example_sev_def)
  have e1: "GetImgScanOverview (scan_env (Inl (Error ''database is down'')))
              (digest example_image) = Inl (Error ''database is down'')"
    by (simp add: scan_env_def)
  have e2: "GetImgScanOverview (scan_env (Inr None)) (digest example_image) = Inr None"
    by (simp add: scan_env_def)
  have "answered (vulnerableHandler (scan_env (Inl (Error ''database is down'')))
                    (funnelHandler example_registry) 0 checked_request buffered_state)
          buffered_state 0 412 (error_object ''412'' ''Failed to get ImgScanOverview.'')"
    by (rule vulnerableHandler_unverifiable_denied
               [where err = "Error ''database is down''"
                  and nxt = "funnelHandler example_registry",
                OF ctx clair pol buffered_state_client(1),
                THEN conjunct1, THEN mp, OF e1, THEN conjunct2])
  from answered_client[OF this buffered_state_client(2)]
  have 1: "map_option (\<lambda>s. (StatusCode (heap s 0), Body (heap s 0)))
     (vulnerableHandler (scan_env (Inl (Error ''database is down'')))
        (funnelHandler example_registry) 0 checked_request buffered_state) =
     Some (412, error_object ''412'' ''Failed to get ImgScanOverview.'' @ [CHR 0x0A])" .
  have an2: "answered (vulnerableHandler (scan_env (Inr None))
                    (funnelHandler example_registry) 0 checked_request buffered_state)
          buffered_state 0 412
          (error_object ''412'' ''Cannot get the image scan overview info.'')"
    by (rule vulnerableHandler_unverifiable_denied
               [where nxt = "funnelHandler example_registry",
                OF ctx clair pol buffered_state_client(1),
                THEN conjunct2, THEN conjunct1, THEN mp, OF e2, THEN conjunct2])
  from answered_client[OF an2 buffered_state_client(2)]
  have 2: "map_option (\<lambda>s. (StatusCode (heap s 0), Body (heap s 0)))
     (vulnerableHandler (scan_env (Inr None))
        (funnelHandler example_registry) 0 checked_request buffered_state) =
     Some (412, error_object ''412'' ''Cannot get the image scan overview info.'' @
                [CHR 0x0A])" .
  have rec2: "rec buffered_state = Some 2"
    "Body (heap buffered_state 2) = ''manifest of /v2/library/ubuntu/manifests/v1''"
    by (simp_all add: buffered_state_def Write_def WriteHeader_def Header_Set_def
          NewRecorder_def init_state_def fresh_writer_def writeHeader_def)
  from an2 rec2 have 3: "map_option (\<lambda>s. (rec s, Body (heap s 2)))
     (vulnerableHandler (scan_env (Inr None))
        (funnelHandler example_registry) 0 checked_request buffered_state) =
   Some (Some 2, ''manifest of /v2/library/ubuntu/manifests/v1'')"
    by (auto simp: answered_def)
  from 1 2 3 show ?thesis by (simp add: error_object_def)
qed

text \<open>
  Claim C7. Let the stage be active and the scan store hold an overview for the digest.
  When the severity of the image is at or above the project's threshold, the request is
  answered here: on a client not yet written to, the client receives the status 412 and the
  body \<open>{"code":412,"message":M,"details":M}\<close> followed by a newline, where \<open>M\<close> is the
  JSON text of \<open>The severity of vulnerability of the image: S is equal or higher than the
  threshold in project setting: T.\<close>, \<open>S\<close> and \<open>T\<close> being the severity of the image and the
  threshold as \<open>%q\<close> prints them. When the severity is below the threshold, the request goes
  on to the next handler.
\<close>

theorem vulnerableHandler_threshold:
  assumes ctx: "Context req = Some img" and clair: "WithClair e"
    and pol: "vulnerablePolicy e (getPolicyChecker e) (projectName img) st
                = ((True, threshold), st1)"
    and ov: "GetImgScanOverview e (digest img) = Inr (Some overview)"
  shows
   "(Sev overview \<ge> threshold \<longrightarrow>
      vulnerableHandler e nxt rw req st =
        Some (http_Error rw
               (marshalError
                  (''The severity of vulnerability of the image: '' @ SeverityQ e (Sev overview) @
                   '' is equal or higher than the threshold in project setting: '' @
                   SeverityQ e threshold @ ''.'') 412)
               412 (log_call (CallGetImgScanOverview (digest img)) st1)) \<and>
      (\<not> wroteHeader (heap st rw) \<longrightarrow>
         map_option (\<lambda>s. StatusCode (heap s rw)) (vulnerableHandler e nxt rw req st)
           = Some 412 \<and>
         answered (vulnerableHandler e nxt rw req st) st rw 412
           (error_object ''412''
              (''The severity of vulnerability of the image: '' @
               concat (map json_char (SeverityQ e (Sev overview))) @
               '' is equal or higher than the threshold in project setting: '' @
               concat (map json_char (SeverityQ e threshold)) @ ''.'')))) \<and>
    (Sev overview < threshold \<longrightarrow>
      vulnerableHandler e nxt rw req st =
        nxt rw req (log_call (CallGetImgScanOverview (digest img)) st1))"
proof -
  from pol vulnerablePolicy_state(1,2)[of e "getPolicyChecker e" "projectName img" st]
  have h1: "heap st1 = heap st" "rec st1 = rec st" by simp_all
  let ?st2 = "log_call (CallGetImgScanOverview (digest img)) st1"
  let ?msg = "''The severity of vulnerability of the image: '' @ SeverityQ e (Sev overview) @
              '' is equal or higher than the threshold in project setting: '' @
              SeverityQ e threshold @ ''.''"
  have deny: "vulnerableHandler e nxt rw req st =
                Some (http_Error rw (marshalError ?msg 412) 412 ?st2)"
    if "Sev overview \<ge> threshold"
    using that by (simp add: vulnerableHandler_def ctx clair pol ov Let_def)
  have pass: "vulnerableHandler e nxt rw req st = nxt rw req ?st2"
    if "Sev overview < threshold"
    using that by (simp add: vulnerableHandler_def ctx clair pol ov Let_def)
  have ans: "answered (Some (http_Error rw (marshalError ?msg 412) 412 ?st2)) st rw 412
               (marshalError ?msg 412)"
    if "\<not> wroteHeader (heap st rw)"
    by (rule http_Error_answered) (use that h1 in simp_all)
  show ?thesis
  proof (intro conjI impI)
    assume "Sev overview \<ge> threshold"
    then show "vulnerableHandler e nxt rw req st =
                 Some (http_Error rw (marshalError ?msg 412) 412 ?st2)"
      by (rule deny)
  next
    assume s: "Sev overview \<ge> threshold" and f: "\<not> wroteHeader (heap st rw)"
    from f h1 show "map_option (\<lambda>s. StatusCode (heap s rw)) (vulnerableHandler e nxt rw req st)
           = Some 412"
      by (simp add: deny[OF s] http_Error_fresh)
  next
    assume s: "Sev overview \<ge> threshold" and f: "\<not> wroteHeader (heap st rw)"
    from ans[OF f] show "answered (vulnerableHandler e nxt rw req st) st rw 412
           (error_object ''412''
              (''The severity of vulnerability of the image: '' @
               concat (map json_char (SeverityQ e (Sev overview))) @
               '' is equal or higher than the threshold in project setting: '' @
               concat (map json_char (SeverityQ e threshold)) @ ''.''))"
      by (simp only: deny[OF s] marshalError_severity)
  next
    assume "Sev overview < threshold"
    then show "vulnerableHandler e nxt rw req st = nxt rw req ?st2"
      by (rule pass)
  qed
qed

text \<open>
  The example of the specification: an image of severity high (5) against the threshold
  medium (4) is refused with 412; the example environment prints a severity as its number
  in double quotes, which JSON writes with backslashes. An image of severity low (3) goes
  on and the buffered manifest is released.
\<close>

theorem vulnerableHandler_threshold_witness:
  "map_option (\<lambda>s. (StatusCode (heap s 0), Body (heap s 0)))
     (vulnerableHandler (scan_env (Inr (Some \<lparr>Sev = 5\<rparr>)))
        (funnelHandler example_registry) 0 checked_request buffered_state) =
   Some (412,
         [CHR ''{'', CHR 0x22] @ ''code'' @ [CHR 0x22] @ '':412,'' @
         [CHR 0x22] @ ''message'' @ [CHR 0x22, CHR '':'', CHR 0x22] @
         ''The severity of vulnerability of the image: '' @
         [CHR 0x5C, CHR 0x22, CHR ''5'', CHR 0x5C, CHR 0x22] @
         '' is equal or higher than the threshold in project setting: '' @
         [CHR 0x5C, CHR 0x22, CHR ''4'', CHR 0x5C, CHR 0x22] @ ''.'' @
         [CHR 0x22, CHR '','', CHR 0x22] @ ''details'' @ [CHR 0x22, CHR '':'', CHR 0x22] @
         ''The severity of vulnerability of the image: '' @
         [CHR 0x5C, CHR 0x22, CHR ''5'', CHR 0x5C, CHR 0x22] @
         '' is equal or higher than the threshold in project setting: '' @
         [CHR 0x5C, CHR 0x22, CHR ''4'', CHR 0x5C, CHR 0x22] @ ''.'' @
         [CHR 0x22, CHR ''}'', CHR 0x0A]) \<and>
   vulnerableHandler (scan_env (Inr (Some \<lparr>Sev = 3\<rparr>)))
     (funnelHandler example_registry) 0 checked_request buffered_state =
   funnelHandler example_registry 0 checked_request
     (log_call (CallGetImgScanOverview ''sha256:bbb'') buffered_state) \<and>
   map_option (\<lambda>s. (StatusCode (heap s 0), Body (heap s 0)))
     (vulnerableHandler (scan_env (Inr (Some \<lparr>Sev = 3\<rparr>)))
        (funnelHandler example_registry) 0 checked_request buffered_state) =
   Some (200, ''manifest of /v2/library/ubuntu/manifests/v1'')"
proof -
  have ctx: "Context checked_request = Some example_image"
    by (simp add: checked_request_def)
  have clair: "WithClair (scan_env ov)" for ov
    by (simp add: scan_env_def)
  have pol: "vulnerablePolicy (scan_env ov) (getPolicyChecker (scan_env ov))
               (projectName example_image) buffered_state = ((True, 4), buffered_state)" for ov
    by (simp add: scan_env_def example_env_def getPolicyChecker_def example_sev_def)
  have ov: "GetImgScanOverview (scan_env (Inr (Some v))) (digest example_image)
              = Inr (Some v)" for v
    by (simp add: scan_env_def)
  have q: "SeverityQ (scan_env x) i = CHR 0x22 # Itoa i @ [CHR 0x22]" for x i
    by (simp add: scan_env_def example_env_def)
  have esc:
    "concat (map json_char (CHR 0x22 # Itoa 5 @ [CHR 0x22])) =
       [CHR 0x5C, CHR 0x22, CHR ''5'', CHR 0x5C, CHR 0x22]"
    "concat (map json_char (CHR 0x22 # Itoa 4 @ [CHR 0x22])) =
       [CHR 0x5C, CHR 0x22, CHR ''4'', CHR 0x5C, CHR 0x22]"
    by code_simp+
  have sev: "(4::int) \<le> Sev \<lparr>Sev = 5\<rparr>" by simp
  from vulnerableHandler_threshold
         [where nxt = "funnelHandler example_registry", OF ctx clair pol ov,
          THEN conjunct1, THEN mp, OF sev, THEN conjunct2, THEN mp,
          OF buffered_state_client(1), THEN conjunct2]
  have "answered (vulnerableHandler (scan_env (Inr (Some \<lparr>Sev = 5\<rparr>)))
                    (funnelHandler example_registry) 0 checked_request buffered_state)
          buffered_state 0 412
          (error_object ''412''
             (''The severity of vulnerability of the image: '' @
              [CHR 0x5C, CHR 0x22, CHR ''5'', CHR 0x5C, CHR 0x22] @
              '' is equal or higher than the threshold in project setting: '' @
              [CHR 0x5C, CHR 0x22, CHR ''4'', CHR 0x5C, CHR 0x22] @ ''.''))"
    by (simp only: q esc ImgScanOverview.simps)
  from answered_client[OF this buffered_state_client(2)]
  have 1: "map_option (\<lambda>s. (StatusCode (heap s 0), Body (heap s 0)))
     (vulnerableHandler (scan_env (Inr (Some \<lparr>Sev = 5\<rparr>)))
        (funnelHandler example_registry) 0 checked_request buffered_state) =
     Some (412,
           error_object ''412''
             (''The severity of vulnerability of the image: '' @
              [CHR 0x5C, CHR 0x22, CHR ''5'', CHR 0x5C, CHR 0x22] @
              '' is equal or higher than the threshold in project setting: '' @
              [CHR 0x5C, CHR 0x22, CHR ''4'', CHR 0x5C, CHR 0x22] @ ''.'') @ [CHR 0x0A])" .
  from vulnerableHandler_threshold
         [OF ctx clair pol ov, of "\<lparr>Sev = 3\<rparr>" "funnelHandler example_registry" 0]
  have 2: "vulnerableHandler (scan_env (Inr (Some \<lparr>Sev = 3\<rparr>)))
     (funnelHandler example_registry) 0 checked_request buffered_state =
   funnelHandler example_registry 0 checked_request
     (log_call (CallGetImgScanOverview ''sha256:bbb'') buffered_state)"
    by (simp add: example_image_def)
  have 3: "map_option (\<lambda>s. (StatusCode (heap s 0), Body (heap s 0)))
     (funnelHandler example_registry 0 checked_request
        (log_call (CallGetImgScanOverview ''sha256:bbb'') buffered_state)) =
   Some (200, ''manifest of /v2/library/ubuntu/manifests/v1'')"
    by code_simp
  from 1 2 3 show ?thesis by (simp add: error_object_def)
qed

section \<open>Claims about the policy of a project\<close>

text \<open>
  Claim C8. Whatever the project name, when the project manager fails to return the
  project, the checker built on it reports content trust as enabled, and reports the
  vulnerability check as enabled with the threshold \<open>SevUnknown\<close>.
\<close>

theorem pmsPolicyChecker_fails_closed:
  "pm name = Inl err \<Longrightarrow>
   fst (contentTrustEnabled e (pmsPolicyChecker pm) name st) = True \<and>
   fst (vulnerablePolicy e (pmsPolicyChecker pm) name st) = (True, SevUnknown e)"
  by simp

theorem pmsPolicyChecker_fails_closed_witness:
  "GlobalProjectMgr example_env ''library'' = Inl (Error ''project store unreachable'') \<and>
   fst (contentTrustEnabled example_env (pmsPolicyChecker (GlobalProjectMgr example_env))
          ''library'' init_state) = True \<and>
   fst (vulnerablePolicy example_env (pmsPolicyChecker (GlobalProjectMgr example_env))
          ''library'' init_state) = (True, 2)"
proof -
  have h: "GlobalProjectMgr example_env ''library'' = Inl (Error ''project store unreachable'')"
    by (simp add: example_env_def)
  from pmsPolicyChecker_fails_closed
         [where pm = "GlobalProjectMgr example_env" and name = "''library''"
            and e = example_env and st = init_state, OF h] h
  show ?thesis by (simp add: example_env_def)
qed

section \<open>Claims about the release stage\<close>

text \<open>
  Claim C9. With image information in the context, \<open>rec\<close> pointing to a recorder other
  than the client's writer, and a client writer not yet written to, the release stage
  gives the client every header of the recorder with its values (the client's other headers
  stay), sends the header so formed with the recorder's status, and appends the recorder's
  body; the recorder itself is unchanged. With no image information in the context the
  request goes to the next handler as it is.
\<close>

theorem funnelHandler_replay:
  "(Context req = Some img \<and> rec st = Some r \<and> r \<noteq> rw \<and> \<not> wroteHeader (heap st rw) \<longrightarrow>
      (\<exists>st'. funnelHandler nxt rw req st = Some st' \<and>
         (\<forall>k \<in> dom (HeaderMap (heap st r)).
             HeaderMap (heap st' rw) k = HeaderMap (heap st r) k \<and>
             snapHeader (heap st' rw) k = HeaderMap (heap st r) k) \<and>
         (\<forall>k. k \<notin> dom (HeaderMap (heap st r)) \<longrightarrow>
             HeaderMap (heap st' rw) k = HeaderMap (heap st rw) k) \<and>
         StatusCode (heap st' rw) = Result_StatusCode (heap st r) \<and>
         Body (heap st' rw) = Body (heap st rw) @ Body (heap st r) \<and>
         heap st' r = heap st r)) \<and>
   (Context req = None \<longrightarrow> funnelHandler nxt rw req st = nxt rw req st)"
proof (intro conjI impI)
  assume a: "Context req = Some img \<and> rec st = Some r \<and> r \<noteq> rw \<and> \<not> wroteHeader (heap st rw)"
  then have f: "funnelHandler nxt rw req st = copyResp (Some r) rw st"
    by (simp add: funnelHandler_def)
  from a copyResp_Some[of r rw st] obtain st' where st': "copyResp (Some r) rw st = Some st'"
     "HeaderMap (heap st' rw) = HeaderMap (heap st rw) ++ HeaderMap (heap st r)"
     "snapHeader (heap st' rw) = HeaderMap (heap st rw) ++ HeaderMap (heap st r)"
     "StatusCode (heap st' rw) = Result_StatusCode (heap st r)"
     "Body (heap st' rw) = Body (heap st rw) @ Body (heap st r)"
     "\<forall>a. a \<noteq> rw \<longrightarrow> heap st' a = heap st a"
    by blast
  from a st'(6) have keep: "heap st' r = heap st r" by simp
  show "\<exists>st'. funnelHandler nxt rw req st = Some st' \<and>
         (\<forall>k \<in> dom (HeaderMap (heap st r)).
             HeaderMap (heap st' rw) k = HeaderMap (heap st r) k \<and>
             snapHeader (heap st' rw) k = HeaderMap (heap st r) k) \<and>
         (\<forall>k. k \<notin> dom (HeaderMap (heap st r)) \<longrightarrow>
             HeaderMap (heap st' rw) k = HeaderMap (heap st rw) k) \<and>
         StatusCode (heap st' rw) = Result_StatusCode (heap st r) \<and>
         Body (heap st' rw) = Body (heap st rw) @ Body (heap st r) \<and>
         heap st' r = heap st r"
    using f st' keep
    by (intro exI[of _ st']) (auto simp: map_add_def split: option.splits)
next
  assume "Context req = None"
  then show "funnelHandler nxt rw req st = nxt rw req st"
    by (simp add: funnelHandler_def)
qed

theorem funnelHandler_replay_witness:
  "map_option
     (\<lambda>s. (StatusCode (heap s 0), Body (heap s 0),
           HeaderMap (heap s 0) ''Docker-Content-Digest'',
           snapHeader (heap s 0) ''Docker-Content-Digest''))
     (funnelHandler example_registry 0 checked_request buffered_state) =
   Some (200, ''manifest of /v2/library/ubuntu/manifests/v1'', Some [''sha256:bbb''],
         Some [''sha256:bbb'']) \<and>
   funnelHandler example_registry 0 (pull_request ''/v2/_catalog'') init_state =
   example_registry 0 (pull_request ''/v2/_catalog'') init_state"
proof -
  have h: "Context checked_request = Some example_image \<and> rec buffered_state = Some 2 \<and>
           (2::nat) \<noteq> 0 \<and> \<not> wroteHeader (heap buffered_state 0)"
    by (simp add: checked_request_def buffered_state_def Write_def WriteHeader_def
          Header_Set_def NewRecorder_def init_state_def fresh_writer_def)
  have rec2:
    "Result_StatusCode (heap buffered_state 2) = 200"
    "Body (heap buffered_state 2) = ''manifest of /v2/library/ubuntu/manifests/v1''"
    "HeaderMap (heap buffered_state 2) ''Docker-Content-Digest'' = Some [''sha256:bbb'']"
    "Body (heap buffered_state 0) = []"
    by (simp_all add: buffered_state_def Write_def WriteHeader_def Header_Set_def
          NewRecorder_def init_state_def fresh_writer_def writeHeader_def
          Result_StatusCode_def)
  from funnelHandler_replay
         [of checked_request example_image buffered_state 2 0 example_registry] h
  obtain st' where st': "funnelHandler example_registry 0 checked_request buffered_state
                           = Some st'"
    "\<forall>k \<in> dom (HeaderMap (heap buffered_state 2)).
        HeaderMap (heap st' 0) k = HeaderMap (heap buffered_state 2) k \<and>
        snapHeader (heap st' 0) k = HeaderMap (heap buffered_state 2) k"
    "StatusCode (heap st' 0) = Result_StatusCode (heap buffered_state 2)"
    "Body (heap st' 0) = Body (heap buffered_state 0) @ Body (heap buffered_state 2)"
    by blast
  from rec2(3) have "''Docker-Content-Digest'' \<in> dom (HeaderMap (heap buffered_state 2))"
    by (simp add: domI)
  with st'(2) rec2(3) have hd:
    "HeaderMap (heap st' 0) ''Docker-Content-Digest'' = Some [''sha256:bbb'']"
    "snapHeader (heap st' 0) ''Docker-Content-Digest'' = Some [''sha256:bbb'']"
    by auto
  have pass: "Context (pull_request ''/v2/_catalog'') = None"
    by (simp add: pull_request_def)
  from funnelHandler_replay
         [of "pull_request ''/v2/_catalog''" _ init_state _ 0 example_registry] pass
  have 2: "funnelHandler example_registry 0 (pull_request ''/v2/_catalog'') init_state =
           example_registry 0 (pull_request ''/v2/_catalog'') init_state"
    by simp
  from st' hd rec2 2 show ?thesis by simp
qed


end
